theory Spec2Isabelle
  imports Main "HOL-Library.Sublist"
begin

section \<open>Python strings\<close>

text \<open>
  A Python \<open>str\<close> is a sequence of Unicode code points, so it is modelled as a list of
  natural numbers (one per code point), not as a list of bytes: \<open>str.strip()\<close> removes
  code points such as U+00A0 and U+2028, which are several bytes in UTF-8.
  \<open>py\<close> turns an ASCII literal into such a list.
\<close>

type_synonym pystr = "nat list"

definition py :: "string \<Rightarrow> pystr" where
  "py s = map of_char s"

text \<open>
  The code points for which \<open>str.isspace()\<close> holds, which are the ones \<open>str.strip()\<close>
  removes: U+0009..U+000D, U+001C..U+0020, U+0085, U+00A0, U+1680, U+2000..U+200A,
  U+2028, U+2029, U+202F, U+205F and U+3000.
\<close>

definition is_space :: "nat \<Rightarrow> bool" where
  "is_space c \<longleftrightarrow>
     (9 \<le> c \<and> c \<le> 13) \<or> (28 \<le> c \<and> c \<le> 32) \<or> c = 133 \<or> c = 160 \<or> c = 5760 \<or>
     (8192 \<le> c \<and> c \<le> 8202) \<or> c = 8232 \<or> c = 8233 \<or> c = 8239 \<or> c = 8287 \<or> c = 12288"

text \<open>Both forms of \<open>strip\<close> remove, from each end, the longest run of characters of a set.\<close>

definition strip_set :: "(nat \<Rightarrow> bool) \<Rightarrow> pystr \<Rightarrow> pystr" where
  "strip_set P s = rev (dropWhile P (rev (dropWhile P s)))"

text \<open>\<open>s.strip()\<close>\<close>

definition strip :: "pystr \<Rightarrow> pystr" where
  "strip s = strip_set is_space s"

text \<open>\<open>s.strip(chars)\<close>: the argument is a set of characters, not a prefix or suffix.\<close>

definition strip_chars :: "pystr \<Rightarrow> pystr \<Rightarrow> pystr" where
  "strip_chars chars s = strip_set (\<lambda>c. c \<in> set chars) s"

text \<open>
  \<open>s.replace(old, new)\<close>, written \<open>replace old new s\<close>: every occurrence of \<open>old\<close>, found
  from the left and not overlapping, is replaced. For the empty \<open>old\<close> Python inserts
  \<open>new\<close> before every character and at the end.
\<close>

fun replace :: "pystr \<Rightarrow> pystr \<Rightarrow> pystr \<Rightarrow> pystr" where
  "replace [] new s = new @ concat (map (\<lambda>c. c # new) s)"
| "replace (a # old) new [] = []"
| "replace (a # old) new (c # cs) =
     (if prefix (a # old) (c # cs) then new @ replace (a # old) new (drop (length old) cs)
      else c # replace (a # old) new cs)"

section \<open>Sanitizing the generated code\<close>

text \<open>
  \<^verbatim>\<open>
  def clean_python_code(raw_code: str):
      return raw_code.strip().strip("```").replace("python", "").strip()
  \<close>
\<close>

definition clean_python_code :: "pystr \<Rightarrow> pystr" where
  "clean_python_code raw_code =
     strip (replace (py ''python'') [] (strip_chars (py ''```'') (strip raw_code)))"

text \<open>
  The text a model returns when it wraps a code body in a markdown fence with the
  language tag: three backticks, \<open>python\<close>, a newline, the body, a newline, three backticks.
\<close>

definition fence :: "pystr \<Rightarrow> pystr" where
  "fence code = py ''```python'' @ [10] @ code @ [10] @ py ''```''"

text \<open>A string has no character of the set \<open>P\<close> at either end.\<close>

definition no_edge :: "(nat \<Rightarrow> bool) \<Rightarrow> pystr \<Rightarrow> bool" where
  "no_edge P s \<longleftrightarrow> s = [] \<or> (\<not> P (hd s) \<and> \<not> P (last s))"


section \<open>Exceptions\<close>

text \<open>
  The script defines no exception class and has no \<open>try\<close> statement; what can be raised
  are the exceptions of Python and of the libraries it calls. An exception raised inside a
  library whose code is not modelled (the inference client, the prompt template, an
  imported module) is \<open>Raised\<close> with the name of its class.
\<close>

datatype py_exception =
    ConnectionError
  | HTTPError nat
  | JSONDecodeError
  | ValueError
  | KeyError pystr
  | SyntaxError
  | NameError pystr
  | UnboundLocalError pystr
  | TypeError
  | RecursionError
  | Raised pystr

section \<open>The parsed response and the dataset\<close>

text \<open>
  What \<open>resp.json()\<close> returns. A number without fraction or exponent is a Python \<open>int\<close>;
  any other is a binary64 \<open>float\<close>, kept as the pair \<open>m, e\<close> of the value \<open>m * 2^e\<close>
  (no arithmetic on it is modelled). An object is a \<open>dict\<close>: its keys are distinct and
  keep their order.
\<close>

datatype json =
    JNull
  | JBool bool
  | JInt int
  | JFloat int int
  | JStr pystr
  | JArr "json list"
  | JObj "(pystr \<times> json) list"

text \<open>
  A pandas \<open>DataFrame\<close>: the row labels and the columns in order, every column with one
  cell per row. A cell holds the parsed value it was built from, or \<open>NaN\<close> where a row
  has no value. The conversion of a column to a numeric dtype is not modelled. A \<open>Series\<close>
  is one named column with the row labels.
\<close>

datatype label = Pos nat | Key pystr

datatype cell = Val json | NaN

record dataframe =
  df_index :: "label list"
  df_columns :: "(pystr \<times> cell list) list"

record series =
  s_name :: pystr
  s_index :: "label list"
  s_values :: "cell list"

fun dict_keys :: "json \<Rightarrow> pystr list option" where
  "dict_keys (JObj kv) = Some (map fst kv)"
| "dict_keys v = None"

fun list_len :: "json \<Rightarrow> nat option" where
  "list_len (JArr xs) = Some (length xs)"
| "list_len v = None"

text \<open>The elements of a list in the order of their first occurrence.\<close>

definition first_unique :: "'a list \<Rightarrow> 'a list" where
  "first_unique xs = rev (remdups (rev xs))"

text \<open>
  The row labels of \<open>pd.DataFrame(data)\<close> for a \<open>dict\<close> (pandas' \<open>_extract_index\<close>):
  an empty dict has no rows; values that are all scalars raise \<open>ValueError\<close>; lists must
  have one length and cannot be mixed with dicts; lists give the positions, dicts the
  union of their keys.
\<close>

definition extract_index :: "(pystr \<times> json) list \<Rightarrow> py_exception + label list" where
  "extract_index data =
     (let dicts = List.map_filter (\<lambda>kv. dict_keys (snd kv)) data;
          lens = List.map_filter (\<lambda>kv. list_len (snd kv)) data
      in if data = [] then Inr []
         else if dicts = [] \<and> lens = [] then Inl ValueError
         else if lens \<noteq> [] then
           (if 1 < length (remdups lens) then Inl ValueError
            else if dicts \<noteq> [] then Inl ValueError
            else Inr (map Pos [0..<hd lens]))
         else Inr (map Key (first_unique (concat dicts))))"

text \<open>A column from a value of the dict: a list as it is, a dict by the row labels, a
  scalar repeated for every row.\<close>

fun column_cells :: "label list \<Rightarrow> json \<Rightarrow> cell list" where
  "column_cells idx (JArr xs) = map Val xs"
| "column_cells idx (JObj kv) =
     map (\<lambda>l. case l of
                 Key k \<Rightarrow> (case map_of kv k of Some v \<Rightarrow> Val v | None \<Rightarrow> NaN)
               | Pos n \<Rightarrow> NaN) idx"
| "column_cells idx v = replicate (length idx) (Val v)"

text \<open>\<open>pd.DataFrame(data)\<close> for a \<open>dict\<close>\<close>

definition pd_DataFrame :: "(pystr \<times> json) list \<Rightarrow> py_exception + dataframe" where
  "pd_DataFrame data =
     (case extract_index data of
        Inl e \<Rightarrow> Inl e
      | Inr idx \<Rightarrow>
          Inr \<lparr>df_index = idx, df_columns = map (\<lambda>kv. (fst kv, column_cells idx (snd kv))) data\<rparr>)"

text \<open>\<open>df[k]\<close>\<close>

definition get_column :: "dataframe \<Rightarrow> pystr \<Rightarrow> py_exception + series" where
  "get_column df k =
     (case map_of (df_columns df) k of
        None \<Rightarrow> Inl (KeyError k)
      | Some cs \<Rightarrow> Inr \<lparr>s_name = k, s_index = df_index df, s_values = cs\<rparr>)"

text \<open>\<open>pd.DataFrame(s)\<close> for a named \<open>Series\<close>: one column of that name. Cells that are
  dicts stay cells; they are not spread into columns.\<close>

definition frame_of_series :: "series \<Rightarrow> dataframe" where
  "frame_of_series s = \<lparr>df_index = s_index s, df_columns = [(s_name s, s_values s)]\<rparr>"

text \<open>\<open>df[k] = s\<close>: the values of \<open>s\<close> are aligned to the row labels of \<open>df\<close>; the column
  replaces the one of that name or is added last.\<close>

definition align :: "label list \<Rightarrow> series \<Rightarrow> cell list" where
  "align idx s =
     map (\<lambda>l. case map_of (zip (s_index s) (s_values s)) l of Some c \<Rightarrow> c | None \<Rightarrow> NaN) idx"

fun put_column :: "pystr \<Rightarrow> cell list \<Rightarrow> (pystr \<times> cell list) list \<Rightarrow> (pystr \<times> cell list) list" where
  "put_column k cs [] = [(k, cs)]"
| "put_column k cs (p # ps) = (if fst p = k then (k, cs) # ps else p # put_column k cs ps)"

definition set_column :: "dataframe \<Rightarrow> pystr \<Rightarrow> series \<Rightarrow> dataframe" where
  "set_column df k s = df\<lparr>df_columns := put_column k (align (df_index df) s) (df_columns df)\<rparr>"

text \<open>
  The dataset of \<open>segments_summary\<close>, from the parsed response:
  \<^verbatim>\<open>
  raw_data_segments = pd.DataFrame(fetch_data(...))
  data_segments = pd.DataFrame(raw_data_segments["revenue_breakdown"])
  data_segments["symbol"] = raw_data_segments["symbol"]
  data_segments["financial_year"] = raw_data_segments["financial_year"]
  \<close>
\<close>

definition segments_frame :: "(pystr \<times> json) list \<Rightarrow> py_exception + dataframe" where
  "segments_frame body =
     (case pd_DataFrame body of
        Inl e \<Rightarrow> Inl e
      | Inr raw_data_segments \<Rightarrow>
          (case get_column raw_data_segments (py ''revenue_breakdown'') of
             Inl e \<Rightarrow> Inl e
           | Inr breakdown \<Rightarrow>
               (let data_segments = frame_of_series breakdown in
                case get_column raw_data_segments (py ''symbol'') of
                  Inl e \<Rightarrow> Inl e
                | Inr symbol \<Rightarrow>
                    (let data_segments = set_column data_segments (py ''symbol'') symbol in
                     case get_column raw_data_segments (py ''financial_year'') of
                       Inl e \<Rightarrow> Inl e
                     | Inr financial_year \<Rightarrow>
                         Inr (set_column data_segments (py ''financial_year'') financial_year)))))"

text \<open>A value that is neither a list nor a dict, as \<open>symbol\<close> and \<open>financial_year\<close> are in
  a response of the expected shape.\<close>

fun is_scalar :: "json \<Rightarrow> bool" where
  "is_scalar (JArr xs) = False"
| "is_scalar (JObj kv) = False"
| "is_scalar v = True"

text \<open>The cell of a row in a column, for reading a dataset; \<open>None\<close> where there is none.\<close>

definition cell_at :: "dataframe \<Rightarrow> pystr \<Rightarrow> nat \<Rightarrow> cell option" where
  "cell_at df k i =
     (case map_of (df_columns df) k of
        None \<Rightarrow> None
      | Some cs \<Rightarrow> if i < length cs then Some (cs ! i) else None)"

definition n_rows :: "dataframe \<Rightarrow> nat" where
  "n_rows df = length (df_index df)"

section \<open>Python values and the code that \<open>exec\<close> runs\<close>

text \<open>
  The part of Python that decides how a name is resolved: literals, names, attribute
  access and calls; at the top level assignments, imports (\<open>import m as a\<close>), function
  definitions, expression statements and \<open>global\<close> declarations; in a function body the
  same without nested definitions, and \<open>return\<close>. There are no loops, no \<open>try\<close>, no
  default arguments and no classes.
\<close>

datatype expr =
    IntLit int
  | StrLit pystr
  | Name pystr
  | Attr expr pystr
  | Call expr "expr list"

datatype fstmt =
    FAssign pystr expr
  | FImport pystr pystr
  | FExpr expr
  | FReturn expr
  | FGlobal pystr

datatype stmt =
    Assign pystr expr
  | Import pystr pystr
  | Def pystr "pystr list" "fstmt list"
  | ExprStmt expr
  | Global pystr

text \<open>A function value is its name, its parameters and its body; \<open>VObj\<close> is an object of a
  library (a figure, say), known by its identity only.\<close>

datatype pyval =
    VNone
  | VInt int
  | VStr pystr
  | VModule pystr
  | VFunc pystr "pystr list" "fstmt list"
  | VObj nat

type_synonym namespace = "pystr \<rightharpoonup> pyval"

section \<open>The world outside the script\<close>

text \<open>
  What the browser, the network and the libraries answer. \<open>http_get\<close> is
  \<open>requests.get(url, headers=HEADERS, params=params)\<close>: no reply at all, or a status code
  and the body, which is a JSON object or not JSON at all (the service answers with
  objects; a body that is JSON of another kind is outside this model). \<open>to_string\<close> is
  \<open>DataFrame.to_string(index=False)\<close>; \<open>format_prompt t d\<close> is
  \<open>PromptTemplate.from_template(t).format(data=d)\<close>; \<open>llm_invoke n p\<close> is the content of
  the reply to \<open>llm.invoke(p)\<close> when \<open>n\<close> calls were made before (the model samples, so
  the same prompt need not get the same reply). \<open>caller_globals\<close> and \<open>caller_locals\<close>
  hold the variables visible where \<open>exec\<close> is called (the module's globals, with the keys
  of the two services, and the locals of \<open>visualize_segments\<close>), and
  \<open>exec_builtin caller_globals caller_locals code globals locals\<close> is Python's \<open>exec\<close>
  called there: it returns the final content of the locals dictionary, or the exception
  raised.
\<close>

datatype http_body = NotJson | Object "(pystr \<times> json) list"

datatype http_reply = NoReply | Reply nat http_body

record world =
  ticker_input :: pystr
  button_pressed :: bool
  http_get :: "pystr \<Rightarrow> (pystr \<times> pystr) list option \<Rightarrow> http_reply"
  to_string :: "dataframe \<Rightarrow> pystr"
  format_prompt :: "pystr \<Rightarrow> pystr \<Rightarrow> py_exception + pystr"
  llm_invoke :: "nat \<Rightarrow> pystr \<Rightarrow> py_exception + pystr"
  caller_globals :: namespace
  caller_locals :: namespace
  exec_builtin :: "namespace \<Rightarrow> namespace \<Rightarrow> pystr \<Rightarrow> namespace option \<Rightarrow> namespace option
                   \<Rightarrow> py_exception + namespace"

text \<open>What a run does that can be seen from outside, in order.\<close>

datatype event =
    TextInput pystr
  | Button pystr
  | Header pystr
  | Expander pystr
  | Markdown pystr
  | Pyplot pyval
  | HttpGet pystr
  | LlmInvoke pystr
  | Exec pystr

text \<open>
  A statement of the script takes the events so far and returns a value or the exception
  it raised, with the events extended. An exception ends everything that would follow
  (\<open>io_bind\<close>); the script has no handler that would stop it.
\<close>

type_synonym 'a io = "event list \<Rightarrow> (py_exception + 'a) \<times> event list"

definition io_return :: "'a \<Rightarrow> 'a io" where
  "io_return x tr = (Inr x, tr)"

definition io_bind :: "'a io \<Rightarrow> ('a \<Rightarrow> 'b io) \<Rightarrow> 'b io" where
  "io_bind m f tr = (case m tr of (Inl e, tr') \<Rightarrow> (Inl e, tr') | (Inr x, tr') \<Rightarrow> f x tr')"

definition lift :: "py_exception + 'a \<Rightarrow> 'a io" where
  "lift r tr = (r, tr)"

definition emit :: "event \<Rightarrow> unit io" where
  "emit ev tr = (Inr (), tr @ [ev])"

section \<open>The script\<close>

definition BASE_URL :: pystr where
  "BASE_URL = py ''https://api.sectors.app/v1''"

text \<open>
  \<^verbatim>\<open>
  def fetch_data(endpoint: str, params: dict = None):
      url = f"{BASE_URL}/{endpoint}"
      resp = requests.get(url, headers=HEADERS, params=params)
      resp.raise_for_status()
      return resp.json()
  \<close>
  \<open>raise_for_status\<close> raises for the status codes 400 to 599. The keys of the body are
  not looked at.
\<close>

definition fetch_data :: "world \<Rightarrow> pystr \<Rightarrow> (pystr \<times> pystr) list option \<Rightarrow> (pystr \<times> json) list io" where
  "fetch_data w endpoint params =
     (let url = BASE_URL @ py ''/'' @ endpoint in
      io_bind (emit (HttpGet url)) (\<lambda>_.
      lift (case http_get w url params of
              NoReply \<Rightarrow> Inl ConnectionError
            | Reply status body \<Rightarrow>
                if 400 \<le> status \<and> status < 600 then Inl (HTTPError status)
                else (case body of NotJson \<Rightarrow> Inl JSONDecodeError | Object j \<Rightarrow> Inr j))))"

fun is_llm :: "event \<Rightarrow> bool" where
  "is_llm (LlmInvoke p) = True"
| "is_llm ev = False"

text \<open>\<open>llm.invoke(prompt).content\<close>\<close>

definition llm_content :: "world \<Rightarrow> pystr \<Rightarrow> pystr io" where
  "llm_content w prompt tr = (llm_invoke w (length (filter is_llm tr)) prompt, tr @ [LlmInvoke prompt])"

text \<open>
  \<^verbatim>\<open>
  def run_llm(prompt_template: str, data: pd.DataFrame):
      prompt = PromptTemplate.from_template(prompt_template).format(data=data.to_string(index=False))
      return llm.invoke(prompt).content
  \<close>
\<close>

definition run_llm :: "world \<Rightarrow> pystr \<Rightarrow> dataframe \<Rightarrow> pystr io" where
  "run_llm w prompt_template data =
     io_bind (lift (format_prompt w prompt_template (to_string w data))) (\<lambda>prompt.
     llm_content w prompt)"

text \<open>The prompt templates, line by line (code point 10 is the newline, 8211 the en dash).\<close>

definition unlines :: "pystr list \<Rightarrow> pystr" where
  "unlines ls = concat (map (\<lambda>l. l @ [10]) ls)"

definition summary_prompt :: pystr where
  "summary_prompt = unlines
     [[],
      py ''    Anda adalah analis keuangan.'',
      py ''    Berikut adalah breakdown revenue dan cost perusahaan:'',
      [],
      py ''    {data}'',
      [],
      py ''    Buat insight singkat dalam 3 poin:'',
      py ''    1. Segmen revenue terbesar dan kontribusinya.'',
      py ''    2. Apakah ada risiko ketergantungan pada satu segmen?'',
      py ''    3. Analisis keseimbangan revenue vs cost.''] @ py ''    ''"

definition interpret_prompt :: pystr where
  "interpret_prompt = unlines
     [[],
      py ''    Anda adalah seorang analis keuangan yang handal.'',
      py ''    Berdasarkan data segmen pendapatan dan biaya berikut (dalam miliar rupiah):'',
      [],
      py ''    {data}'',
      [],
      py ''    Analisis tren utama yang muncul dari data tersebut, meliputi:'',
      py ''    1. Apakah revenue tersebar (diversifikasi) atau terkonsentrasi pada 1'' @ [8211]
        @ py ''2 segmen? '',
      py ''    2. Apakah ada gap besar antara revenue dan cost pada segmen tertentu?'',
      py ''    3. Apakah ada indikasi anomali pada segmen tertentu?'',
      py ''    Sajikan analisis dalam 3 poin utama. Tuliskan dalam bahasa yang singkat, padat, dan jelas.'']
     @ py ''    ''"

definition risk_prompt :: pystr where
  "risk_prompt = unlines
     [[],
      py ''    Anda adalah seorang analis risiko keuangan.'',
      py ''    Berdasarkan data pendapatan dan biaya berikut:'',
      [],
      py ''    {data}'',
      [],
      py ''    Identifikasi 2-3 potensi risiko utama yang muncul dari pola perbandingan rasio pendapatan dan biaya operasional.'']
     @ py ''    ''"

text \<open>The prompt of \<open>visualize_segments\<close> is an f-string: the rendered dataset and the
  ticker are put in by Python itself (code point 39 is the single quote).\<close>

definition visualize_prompt :: "pystr \<Rightarrow> pystr \<Rightarrow> pystr" where
  "visualize_prompt rendered ticker = unlines
     [py '' '',
      py ''    Anda adalah seorang programmer Python yang ahli dalam visualisasi data.'',
      py ''    Berikut adalah data segmen pendapatan dan biaya perusahaan:'',
      py ''    '' @ rendered,
      py ''    '',
      py ''    Buat sebuah skrip Python menggunakan matplotlib untuk menghasilkan bar plot yang rapih.'',
      py ''    Instruksi:'',
      py ''    - Sumbu X adalah '' @ [39] @ py ''source'' @ [39] @ py '' (segmen pendapatan/biaya)'',
      py ''    - Sumbu Y adalah '' @ [39] @ py ''value'' @ [39]
        @ py '' dalam triliun IDR (gunakan pembagian value/1e12)'',
      py ''    - Gunakan warna berbeda untuk membedakan setiap segmen'',
      py ''    - Putar label X agar lebih terbaca'',
      py ''    - Beri judul '' @ [39] @ py ''Revenue & Cost Segments '' @ ticker @ [39],
      py ''    '',
      py ''    Tulis HANYA kode python yang bisa langsung dieksekusi. Jangan sertakan penjelasan apapun.'',
      py ''    Pastikan untuk taruh hasilnya dalam variabel bernama '' @ [39] @ py ''fig'' @ [39]
        @ py '' dan pastikan untuk mengimpor semua library yang diperlukan.'']
     @ py ''    ''"

text \<open>The titles of the sections; each begins with an emoji, given by its code points.\<close>

definition summary_header :: "pystr \<Rightarrow> pystr" where
  "summary_header ticker = [127970] @ py '' Segments Summary for '' @ ticker"

definition summary_title :: pystr where
  "summary_title = [128161] @ py '' Ringkasan Kinerja Finansial''"

definition visualize_title :: pystr where
  "visualize_title = [128202] @ py '' Visualisasi Tren Pendapatan''"

definition interpret_title :: pystr where
  "interpret_title = [128270] @ py '' Interpretasi Segmen''"

definition risk_title :: pystr where
  "risk_title = [9888, 65039] @ py '' Analisis Risiko Keuangan''"

definition ticker_label :: pystr where
  "ticker_label = py ''Masukkan Ticker (misalnya: BBRI, ASII, BBCA, HMSP)''"

definition button_label :: pystr where
  "button_label = [128269] @ py '' Lihat Insight''"

text \<open>
  \<^verbatim>\<open>
  def segments_summary(ticker: str):
      st.header(f"... Segments Summary for {ticker}")
      raw_data_segments = pd.DataFrame(fetch_data(f"company/get-segments/{ticker}/"))
      ...
      summary = run_llm(prompt, data_segments)
      with st.expander("... Ringkasan Kinerja Finansial"):
          st.markdown(summary)
      return data_segments
  \<close>
\<close>

definition segments_summary :: "world \<Rightarrow> pystr \<Rightarrow> dataframe io" where
  "segments_summary w ticker =
     io_bind (emit (Header (summary_header ticker))) (\<lambda>_.
     io_bind (fetch_data w (py ''company/get-segments/'' @ ticker @ py ''/'') None) (\<lambda>body.
     io_bind (lift (segments_frame body)) (\<lambda>data_segments.
     io_bind (run_llm w summary_prompt data_segments) (\<lambda>summary.
     io_bind (emit (Expander summary_title)) (\<lambda>_.
     io_bind (emit (Markdown summary)) (\<lambda>_.
     io_return data_segments))))))"

text \<open>
  \<^verbatim>\<open>
  def visualize_segments(ticker: str, data_segments: pd.DataFrame):
      data_sample = data_segments
      prompt = f""" ... {data_sample.to_string(index=False)} ... {ticker} ... """
      code = clean_python_code(llm.invoke(prompt).content)
      with st.expander("... Visualisasi Tren Pendapatan"):
          exec_locals = {}
          exec(code, {}, exec_locals)
          st.pyplot(exec_locals["fig"])
  \<close>
  Both dictionaries given to \<open>exec\<close> are new and empty. A missing key \<open>fig\<close> is a
  \<open>KeyError\<close>. The calls of Streamlit (here and in the other sections) are taken to show
  what they are given and not to raise.
\<close>

definition visualize_segments :: "world \<Rightarrow> pystr \<Rightarrow> dataframe \<Rightarrow> unit io" where
  "visualize_segments w ticker data_segments =
     (let data_sample = data_segments;
          prompt = visualize_prompt (to_string w data_sample) ticker in
      io_bind (llm_content w prompt) (\<lambda>content.
      let code = clean_python_code content in
      io_bind (emit (Expander visualize_title)) (\<lambda>_.
      io_bind (emit (Exec code)) (\<lambda>_.
      io_bind (lift (exec_builtin w (caller_globals w) (caller_locals w) code
                       (Some Map.empty) (Some Map.empty))) (\<lambda>exec_locals.
      io_bind (lift (case exec_locals (py ''fig'') of
                       None \<Rightarrow> Inl (KeyError (py ''fig''))
                     | Some fig \<Rightarrow> Inr fig)) (\<lambda>fig.
      emit (Pyplot fig)))))))"

text \<open>
  \<^verbatim>\<open>
  def interpret_segments(data_segments: pd.DataFrame):
      interpret = run_llm(prompt, data_segments)
      with st.expander("... Interpretasi Segmen"):
          st.markdown(interpret)
  \<close>
\<close>

definition interpret_segments :: "world \<Rightarrow> dataframe \<Rightarrow> unit io" where
  "interpret_segments w data_segments =
     io_bind (run_llm w interpret_prompt data_segments) (\<lambda>interpret.
     io_bind (emit (Expander interpret_title)) (\<lambda>_.
     emit (Markdown interpret)))"

text \<open>
  \<^verbatim>\<open>
  def risk_analysis(data_segments: pd.DataFrame):
      risks = run_llm(prompt, data_segments)
      with st.expander("... Analisis Risiko Keuangan"):
          st.markdown(risks)
  \<close>
\<close>

definition risk_analysis :: "world \<Rightarrow> dataframe \<Rightarrow> unit io" where
  "risk_analysis w data_segments =
     io_bind (run_llm w risk_prompt data_segments) (\<lambda>risks.
     io_bind (emit (Expander risk_title)) (\<lambda>_.
     emit (Markdown risks)))"

text \<open>
  \<^verbatim>\<open>
  def main():
      ticker = st.text_input("Masukkan Ticker (misalnya: BBRI, ASII, BBCA, HMSP)",  )
      if st.button("... Lihat Insight"):
          data_segments = segments_summary(ticker)
          visualize_segments(ticker, data_segments)
          interpret_segments(data_segments)
          risk_analysis(data_segments)
  \<close>
\<close>

definition sections :: "world \<Rightarrow> pystr \<Rightarrow> unit io" where
  "sections w ticker =
     io_bind (segments_summary w ticker) (\<lambda>data_segments.
     io_bind (visualize_segments w ticker data_segments) (\<lambda>_.
     io_bind (interpret_segments w data_segments) (\<lambda>_.
     risk_analysis w data_segments)))"

definition main :: "world \<Rightarrow> unit io" where
  "main w =
     io_bind (emit (TextInput ticker_label)) (\<lambda>_.
     let ticker = ticker_input w in
     io_bind (emit (Button button_label)) (\<lambda>_.
     if button_pressed w then sections w ticker else io_return ()))"

text \<open>What the page shows: the events that are widgets or content.\<close>

fun is_ui :: "event \<Rightarrow> bool" where
  "is_ui (HttpGet u) = False"
| "is_ui (LlmInvoke p) = False"
| "is_ui (Exec c) = False"
| "is_ui ev = True"

definition shown :: "event list \<Rightarrow> event list" where
  "shown tr = filter is_ui tr"

definition prompts_sent :: "event list \<Rightarrow> nat" where
  "prompts_sent tr = length (filter is_llm tr)"

text \<open>The content of the sections: the texts and the chart.\<close>

fun is_content :: "event \<Rightarrow> bool" where
  "is_content (Markdown m) = True"
| "is_content (Pyplot f) = True"
| "is_content ev = False"

definition content :: "event list \<Rightarrow> event list" where
  "content tr = filter is_content tr"

text \<open>The two widgets every run begins with.\<close>

definition start :: "event list" where
  "start = [TextInput ticker_label, Button button_label]"

text \<open>The address \<open>segments_summary\<close> asks for a ticker.\<close>

definition segments_url :: "pystr \<Rightarrow> pystr" where
  "segments_url ticker = BASE_URL @ py ''/'' @ py ''company/get-segments/'' @ ticker @ py ''/''"

section \<open>How \<open>exec\<close> resolves names\<close>

text \<open>
  The code that \<open>exec\<close> runs has a globals dictionary and a locals dictionary, which are
  two dictionaries or one and the same.
\<close>

datatype dicts = Separate namespace namespace | Shared namespace

fun globals_of :: "dicts \<Rightarrow> namespace" where
  "globals_of (Separate G L) = G"
| "globals_of (Shared G) = G"

fun locals_of :: "dicts \<Rightarrow> namespace" where
  "locals_of (Separate G L) = L"
| "locals_of (Shared G) = G"

fun set_global :: "pystr \<Rightarrow> pyval \<Rightarrow> dicts \<Rightarrow> dicts" where
  "set_global x v (Separate G L) = Separate (G(x \<mapsto> v)) L"
| "set_global x v (Shared G) = Shared (G(x \<mapsto> v))"

fun set_local :: "pystr \<Rightarrow> pyval \<Rightarrow> dicts \<Rightarrow> dicts" where
  "set_local x v (Separate G L) = Separate G (L(x \<mapsto> v))"
| "set_local x v (Shared G) = Shared (G(x \<mapsto> v))"

text \<open>
  What the interpreter is given: the compiler (\<open>None\<close> for a syntax error), the built-in
  names, the recursion limit, and the libraries of the process. The executed code runs
  in the process of the application, so a library can inspect it: what an import or an
  attribute returns may depend on the globals and the locals of the function that called
  \<open>exec\<close> (the module \<open>__main__\<close>, \<open>sys._getframe\<close>), and the call of a library object may
  also read and rebind the two dictionaries of the executed code (\<open>globals()\<close>,
  \<open>locals()\<close>).
\<close>

type_synonym frames = "namespace \<times> namespace"

record interpreter =
  parse_source :: "pystr \<Rightarrow> stmt list option"
  builtins :: namespace
  import_module :: "frames \<Rightarrow> pystr \<Rightarrow> py_exception + pyval"
  get_attr :: "frames \<Rightarrow> pyval \<Rightarrow> pystr \<Rightarrow> py_exception + pyval"
  call_object :: "frames \<Rightarrow> dicts \<Rightarrow> pyval \<Rightarrow> pyval list \<Rightarrow> py_exception + pyval \<times> dicts"
  recursion_limit :: nat

text \<open>
  Code runs either at the top level of the executed text, where some names may be
  declared \<open>global\<close>, or in the body of a function, with the names that are local to the
  function (its parameters and every name its body binds and does not declare \<open>global\<close>)
  and their values so far.
\<close>

datatype scope = Top "pystr list" | Fn "pystr list" namespace

fun binds :: "fstmt \<Rightarrow> pystr list" where
  "binds (FAssign x e) = [x]"
| "binds (FImport m a) = [a]"
| "binds (FExpr e) = []"
| "binds (FReturn e) = []"
| "binds (FGlobal x) = []"

fun declares :: "fstmt \<Rightarrow> pystr list" where
  "declares (FGlobal x) = [x]"
| "declares s = []"

definition local_names :: "pystr list \<Rightarrow> fstmt list \<Rightarrow> pystr list" where
  "local_names ps body =
     ps @ filter (\<lambda>x. x \<notin> set (concat (map declares body))) (concat (map binds body))"

fun top_declares :: "stmt \<Rightarrow> pystr list" where
  "top_declares (Global x) = [x]"
| "top_declares s = []"

definition top_globals :: "stmt list \<Rightarrow> pystr list" where
  "top_globals prog = concat (map top_declares prog)"

text \<open>A name that is not local is looked up in the globals dictionary and then among the
  built-in names.\<close>

definition lookup_global :: "interpreter \<Rightarrow> namespace \<Rightarrow> pystr \<Rightarrow> py_exception + pyval" where
  "lookup_global rt G x =
     (case G x of
        Some v \<Rightarrow> Inr v
      | None \<Rightarrow> (case builtins rt x of Some v \<Rightarrow> Inr v | None \<Rightarrow> Inl (NameError x)))"

text \<open>
  At the top level a name is looked up in the locals dictionary first, unless it is
  declared \<open>global\<close>. In a function a local name is looked up among the function's own
  variables only, and any other name in the globals dictionary and among the built-in
  names only: the locals dictionary of the top level is not consulted.
\<close>

fun lookup_name :: "interpreter \<Rightarrow> scope \<Rightarrow> dicts \<Rightarrow> pystr \<Rightarrow> py_exception + pyval" where
  "lookup_name rt (Top tg) st x =
     (if x \<in> set tg then lookup_global rt (globals_of st) x
      else (case locals_of st x of
              Some v \<Rightarrow> Inr v
            | None \<Rightarrow> lookup_global rt (globals_of st) x))"
| "lookup_name rt (Fn names FL) st x =
     (if x \<in> set names
      then (case FL x of Some v \<Rightarrow> Inr v | None \<Rightarrow> Inl (UnboundLocalError x))
      else lookup_global rt (globals_of st) x)"

text \<open>
  Evaluation, with the frames \<open>fr\<close> of the caller of \<open>exec\<close>, the number \<open>d\<close> of calls that
  may still be nested and the two dictionaries \<open>st\<close>: the callee is evaluated first, then
  the arguments from the left; a function of the executed code runs its body with new
  local variables and the same dictionaries. In a body, a name that is bound and not
  local is declared \<open>global\<close>: it is bound in the globals dictionary.
\<close>

fun eval_expr :: "interpreter \<Rightarrow> frames \<Rightarrow> nat \<Rightarrow> scope \<Rightarrow> dicts \<Rightarrow> expr
                   \<Rightarrow> py_exception + pyval \<times> dicts"
  and eval_args :: "interpreter \<Rightarrow> frames \<Rightarrow> nat \<Rightarrow> scope \<Rightarrow> dicts \<Rightarrow> expr list
                     \<Rightarrow> py_exception + pyval list \<times> dicts"
  and exec_body :: "interpreter \<Rightarrow> frames \<Rightarrow> nat \<Rightarrow> pystr list \<Rightarrow> namespace \<Rightarrow> dicts \<Rightarrow> fstmt list
                     \<Rightarrow> py_exception + pyval \<times> dicts"
where
  "eval_expr rt fr d sc st (IntLit n) = Inr (VInt n, st)"
| "eval_expr rt fr d sc st (StrLit s) = Inr (VStr s, st)"
| "eval_expr rt fr d sc st (Name x) =
     (case lookup_name rt sc st x of Inl ex \<Rightarrow> Inl ex | Inr v \<Rightarrow> Inr (v, st))"
| "eval_expr rt fr d sc st (Attr e a) =
     (case eval_expr rt fr d sc st e of
        Inl ex \<Rightarrow> Inl ex
      | Inr (v, st') \<Rightarrow> (case get_attr rt fr v a of Inl ex \<Rightarrow> Inl ex | Inr u \<Rightarrow> Inr (u, st')))"
| "eval_expr rt fr d sc st (Call f args) =
     (case eval_expr rt fr d sc st f of
        Inl ex \<Rightarrow> Inl ex
      | Inr (fv, st1) \<Rightarrow>
          (case eval_args rt fr d sc st1 args of
             Inl ex \<Rightarrow> Inl ex
           | Inr (vs, st2) \<Rightarrow>
               (case fv of
                  VFunc name ps body \<Rightarrow>
                    if length ps \<noteq> length vs then Inl TypeError
                    else (case d of
                            0 \<Rightarrow> Inl RecursionError
                          | Suc d' \<Rightarrow>
                              exec_body rt fr d' (local_names ps body) (map_of (zip ps vs)) st2 body)
                | _ \<Rightarrow> call_object rt fr st2 fv vs)))"
| "eval_args rt fr d sc st [] = Inr ([], st)"
| "eval_args rt fr d sc st (e # es) =
     (case eval_expr rt fr d sc st e of
        Inl ex \<Rightarrow> Inl ex
      | Inr (v, st1) \<Rightarrow>
          (case eval_args rt fr d sc st1 es of
             Inl ex \<Rightarrow> Inl ex
           | Inr (vs, st2) \<Rightarrow> Inr (v # vs, st2)))"
| "exec_body rt fr d names FL st [] = Inr (VNone, st)"
| "exec_body rt fr d names FL st (FAssign x e # rest) =
     (case eval_expr rt fr d (Fn names FL) st e of
        Inl ex \<Rightarrow> Inl ex
      | Inr (v, st') \<Rightarrow>
          if x \<in> set names then exec_body rt fr d names (FL(x \<mapsto> v)) st' rest
          else exec_body rt fr d names FL (set_global x v st') rest)"
| "exec_body rt fr d names FL st (FImport m a # rest) =
     (case import_module rt fr m of
        Inl ex \<Rightarrow> Inl ex
      | Inr v \<Rightarrow>
          if a \<in> set names then exec_body rt fr d names (FL(a \<mapsto> v)) st rest
          else exec_body rt fr d names FL (set_global a v st) rest)"
| "exec_body rt fr d names FL st (FExpr e # rest) =
     (case eval_expr rt fr d (Fn names FL) st e of
        Inl ex \<Rightarrow> Inl ex
      | Inr (v, st') \<Rightarrow> exec_body rt fr d names FL st' rest)"
| "exec_body rt fr d names FL st (FReturn e # rest) = eval_expr rt fr d (Fn names FL) st e"
| "exec_body rt fr d names FL st (FGlobal x # rest) = exec_body rt fr d names FL st rest"

text \<open>A statement of the top level binds in the locals dictionary, and a name declared
  \<open>global\<close> in the globals dictionary.\<close>

definition bind_top :: "pystr list \<Rightarrow> pystr \<Rightarrow> pyval \<Rightarrow> dicts \<Rightarrow> dicts" where
  "bind_top tg x v st = (if x \<in> set tg then set_global x v st else set_local x v st)"

fun exec_stmt :: "interpreter \<Rightarrow> frames \<Rightarrow> pystr list \<Rightarrow> dicts \<Rightarrow> stmt \<Rightarrow> py_exception + dicts" where
  "exec_stmt rt fr tg st (Assign x e) =
     (case eval_expr rt fr (recursion_limit rt) (Top tg) st e of
        Inl ex \<Rightarrow> Inl ex
      | Inr (v, st') \<Rightarrow> Inr (bind_top tg x v st'))"
| "exec_stmt rt fr tg st (Import m a) =
     (case import_module rt fr m of Inl ex \<Rightarrow> Inl ex | Inr v \<Rightarrow> Inr (bind_top tg a v st))"
| "exec_stmt rt fr tg st (Def f ps body) = Inr (bind_top tg f (VFunc f ps body) st)"
| "exec_stmt rt fr tg st (ExprStmt e) =
     (case eval_expr rt fr (recursion_limit rt) (Top tg) st e of
        Inl ex \<Rightarrow> Inl ex
      | Inr (v, st') \<Rightarrow> Inr st')"
| "exec_stmt rt fr tg st (Global x) = Inr st"

fun exec_stmts :: "interpreter \<Rightarrow> frames \<Rightarrow> pystr list \<Rightarrow> dicts \<Rightarrow> stmt list \<Rightarrow> py_exception + dicts" where
  "exec_stmts rt fr tg st [] = Inr st"
| "exec_stmts rt fr tg st (s # rest) =
     (case exec_stmt rt fr tg st s of
        Inl ex \<Rightarrow> Inl ex
      | Inr st' \<Rightarrow> exec_stmts rt fr tg st' rest)"

text \<open>The text is compiled and run; what is returned is the final content of the locals
  dictionary.\<close>

definition run_source :: "interpreter \<Rightarrow> frames \<Rightarrow> dicts \<Rightarrow> pystr \<Rightarrow> py_exception + namespace" where
  "run_source rt fr st code =
     (case parse_source rt code of
        None \<Rightarrow> Inl SyntaxError
      | Some prog \<Rightarrow>
          (case exec_stmts rt fr (top_globals prog) st prog of
             Inl ex \<Rightarrow> Inl ex
           | Inr st' \<Rightarrow> Inr (locals_of st')))"

text \<open>
  Python's \<open>exec(code, globals, locals)\<close>, called in a function: without \<open>globals\<close> the
  code runs with the globals and locals of the caller; with \<open>globals\<close> only, that
  dictionary serves as both; with both, each is used as given.
\<close>

definition python_exec :: "interpreter \<Rightarrow> namespace \<Rightarrow> namespace \<Rightarrow> pystr \<Rightarrow> namespace option
                            \<Rightarrow> namespace option \<Rightarrow> py_exception + namespace" where
  "python_exec rt cglobals clocals code globals locals =
     (case globals of
        None \<Rightarrow>
          (case locals of
             None \<Rightarrow> run_source rt (cglobals, clocals) (Separate cglobals clocals) code
           | Some L \<Rightarrow> run_source rt (cglobals, clocals) (Separate cglobals L) code)
      | Some G \<Rightarrow>
          (case locals of
             None \<Rightarrow> run_source rt (cglobals, clocals) (Shared G) code
           | Some L \<Rightarrow> run_source rt (cglobals, clocals) (Separate G L) code))"




section \<open>Example runs\<close>

text \<open>
  The response of the first scenario of the specification: ticker \<open>BBCA\<close>, year 2023,
  two segments of 5e12 and 3e12.
\<close>

definition bbca_body :: "(pystr \<times> json) list" where
  "bbca_body =
     [(py ''symbol'', JStr (py ''BBCA'')),
      (py ''financial_year'', JInt 2023),
      (py ''revenue_breakdown'',
         JArr [JObj [(py ''source'', JStr (py ''Retail Banking'')), (py ''value'', JFloat 5000000000000 0)],
               JObj [(py ''source'', JStr (py ''Corporate Banking'')), (py ''value'', JFloat 3000000000000 0)]])]"

text \<open>A response without the key \<open>revenue_breakdown\<close>.\<close>

definition no_breakdown_body :: "(pystr \<times> json) list" where
  "no_breakdown_body = [(py ''symbol'', JStr (py ''BBCA'')), (py ''financial_year'', JInt 2023)]"

text \<open>
  Texts of generated code with their syntax trees. The first makes a figure:
  \<^verbatim>\<open>
  import matplotlib.pyplot as plt
  fig = plt.figure()
  \<close>
  the second is \<open>x = 1\<close>, the third \<open>fig = ticker\<close>, and the fourth (\<open>code_import\<close>) is
  \<^verbatim>\<open>
  import math
  def f():
      return math.pi
  fig = f()
  \<close>
  In the fifth (\<open>code_local_import\<close>) the function imports the module itself:
  \<^verbatim>\<open>
  import math
  def f():
      import math
      return math.pi
  fig = f()
  \<close>
  The last two read the variables of the application through an imported module:
  \<^verbatim>\<open>
  import sys
  fig = sys._getframe(1).f_locals.get('ticker')
  \<close>
  and
  \<^verbatim>\<open>
  import __main__
  fig = __main__.GROQ_API_KEY
  \<close>
\<close>

definition code_fig :: pystr where
  "code_fig = py ''import matplotlib.pyplot as plt'' @ [10] @ py ''fig = plt.figure()''"

definition prog_fig :: "stmt list" where
  "prog_fig =
     [Import (py ''matplotlib.pyplot'') (py ''plt''),
      Assign (py ''fig'') (Call (Attr (Name (py ''plt'')) (py ''figure'')) [])]"

definition code_no_fig :: pystr where
  "code_no_fig = py ''x = 1''"

definition code_ambient :: pystr where
  "code_ambient = py ''fig = ticker''"

definition code_import :: pystr where
  "code_import = py ''import math'' @ [10] @ py ''def f():'' @ [10] @ py ''    return math.pi'' @ [10]
                 @ py ''fig = f()''"

definition prog_import :: "stmt list" where
  "prog_import =
     [Import (py ''math'') (py ''math''),
      Def (py ''f'') [] [FReturn (Attr (Name (py ''math'')) (py ''pi''))],
      Assign (py ''fig'') (Call (Name (py ''f'')) [])]"

definition code_local_import :: pystr where
  "code_local_import = py ''import math'' @ [10] @ py ''def f():'' @ [10] @ py ''    import math'' @ [10]
                       @ py ''    return math.pi'' @ [10] @ py ''fig = f()''"

definition prog_local_import :: "stmt list" where
  "prog_local_import =
     [Import (py ''math'') (py ''math''),
      Def (py ''f'') [] [FImport (py ''math'') (py ''math''),
                         FReturn (Attr (Name (py ''math'')) (py ''pi''))],
      Assign (py ''fig'') (Call (Name (py ''f'')) [])]"

definition code_frame :: pystr where
  "code_frame = py ''import sys'' @ [10] @ py ''fig = sys._getframe(1).f_locals.get('' @ [39]
                @ py ''ticker'' @ [39] @ py '')''"

definition prog_frame :: "stmt list" where
  "prog_frame =
     [Import (py ''sys'') (py ''sys''),
      Assign (py ''fig'')
        (Call (Attr (Attr (Call (Attr (Name (py ''sys'')) (py ''_getframe'')) [IntLit 1])
                          (py ''f_locals'')) (py ''get''))
              [StrLit (py ''ticker'')])]"

definition code_main :: pystr where
  "code_main = py ''import __main__'' @ [10] @ py ''fig = __main__.GROQ_API_KEY''"

definition prog_main :: "stmt list" where
  "prog_main =
     [Import (py ''__main__'') (py ''__main__''),
      Assign (py ''fig'') (Attr (Name (py ''__main__'')) (py ''GROQ_API_KEY''))]"

definition demo_parse :: "pystr \<Rightarrow> stmt list option" where
  "demo_parse code =
     (if code = code_fig then Some prog_fig
      else if code = code_no_fig then Some [Assign (py ''x'') (IntLit 1)]
      else if code = code_ambient then Some [Assign (py ''fig'') (Name (py ''ticker''))]
      else if code = code_import then Some prog_import
      else if code = code_local_import then Some prog_local_import
      else if code = code_frame then Some prog_frame
      else if code = code_main then Some prog_main
      else None)"

text \<open>
  An interpreter for them, with the libraries as they are in the process of the
  application. The modules \<open>math\<close>, \<open>matplotlib.pyplot\<close>, \<open>sys\<close> and \<open>__main__\<close> can be
  imported. An attribute of \<open>__main__\<close> is the global variable of the application of that
  name; \<open>sys._getframe\<close> is the object 10, and any other attribute of a module the object
  0, whose call returns the object 1 (the figure). The call of \<open>sys._getframe\<close> with 1
  returns the frame of the caller of \<open>exec\<close> (the object 11), whose \<open>f_locals\<close> (the
  object 12) has the method \<open>get\<close> (the object 13), which returns the local variable of the
  caller of that name.
\<close>

fun demo_attr :: "frames \<Rightarrow> pyval \<Rightarrow> pystr \<Rightarrow> py_exception + pyval" where
  "demo_attr fr (VModule m) a =
     (if m = py ''__main__''
      then (case fst fr a of Some v \<Rightarrow> Inr v | None \<Rightarrow> Inl (Raised (py ''AttributeError'')))
      else if m = py ''sys'' \<and> a = py ''_getframe'' then Inr (VObj 10)
      else Inr (VObj 0))"
| "demo_attr fr (VObj n) a =
     (if n = 11 \<and> a = py ''f_locals'' then Inr (VObj 12)
      else if n = 12 \<and> a = py ''get'' then Inr (VObj 13)
      else Inl (Raised (py ''AttributeError'')))"
| "demo_attr fr v a = Inl (Raised (py ''AttributeError''))"

fun demo_call :: "frames \<Rightarrow> dicts \<Rightarrow> pyval \<Rightarrow> pyval list \<Rightarrow> py_exception + pyval \<times> dicts" where
  "demo_call fr st (VObj n) args =
     (if n = 0 then Inr (VObj 1, st)
      else if n = 10 \<and> args = [VInt 1] then Inr (VObj 11, st)
      else if n = 13
      then (case args of
              [VStr k] \<Rightarrow> Inr (case snd fr k of Some v \<Rightarrow> v | None \<Rightarrow> VNone, st)
            | _ \<Rightarrow> Inl TypeError)
      else Inl TypeError)"
| "demo_call fr st v args = Inl TypeError"

definition demo_python :: interpreter where
  "demo_python =
     \<lparr>parse_source = demo_parse,
      builtins = [py ''len'' \<mapsto> VObj 1],
      import_module = (\<lambda>fr m. if m \<in> set [py ''math'', py ''matplotlib.pyplot'', py ''sys'', py ''__main__'']
                               then Inr (VModule m)
                               else Inl (Raised (py ''ModuleNotFoundError''))),
      get_attr = demo_attr,
      call_object = demo_call,
      recursion_limit = 1000\<rparr>"

text \<open>The model answers the chart prompt (its second prompt) with \<open>chart\<close> and every other
  prompt with \<open>ok\<close>; in the second variant the call number \<open>k\<close> fails.\<close>

definition replies :: "pystr \<Rightarrow> nat \<Rightarrow> pystr \<Rightarrow> py_exception + pystr" where
  "replies chart n p = (if n = 1 then Inr chart else Inr (py ''ok''))"

definition replies_failing :: "nat \<Rightarrow> pystr \<Rightarrow> nat \<Rightarrow> pystr \<Rightarrow> py_exception + pystr" where
  "replies_failing k chart n p =
     (if n = k then Inl (Raised (py ''APIConnectionError'')) else replies chart n p)"

text \<open>A world: the user asks for \<open>BBCA\<close>, the service answers 200 with \<open>body\<close>, the
  template puts the rendered dataset in the place of \<open>{data}\<close>, and the application holds
  a key and the ticker in its variables.\<close>

definition demo_world :: "(pystr \<times> json) list \<Rightarrow> (nat \<Rightarrow> pystr \<Rightarrow> py_exception + pystr) \<Rightarrow> world" where
  "demo_world body llm =
     \<lparr>ticker_input = py ''BBCA'',
      button_pressed = True,
      http_get = (\<lambda>url params. Reply 200 (Object body)),
      to_string = (\<lambda>df. py ''(table)''),
      format_prompt = (\<lambda>t d. Inr (replace (py ''{data}'') d t)),
      llm_invoke = llm,
      caller_globals = [py ''GROQ_API_KEY'' \<mapsto> VStr (py ''gsk'')],
      caller_locals = [py ''ticker'' \<mapsto> VStr (py ''BBCA'')],
      exec_builtin = python_exec demo_python\<rparr>"

text \<open>The same world for another ticker: only the input of the user, and with it the local
  variable \<open>ticker\<close> of the caller of \<open>exec\<close>, differ.\<close>

definition demo_world_asii :: "(pystr \<times> json) list \<Rightarrow> (nat \<Rightarrow> pystr \<Rightarrow> py_exception + pystr) \<Rightarrow> world" where
  "demo_world_asii body llm =
     (demo_world body llm)\<lparr>ticker_input := py ''ASII'',
                             caller_locals := [py ''ticker'' \<mapsto> VStr (py ''ASII'')]\<rparr>"

section \<open>Properties of the sanitizer\<close>

subsection \<open>Facts about \<open>strip\<close> and \<open>replace\<close>\<close>

text \<open>The equations that evaluate the string functions on a literal.\<close>

lemmas string_eval =
  clean_python_code_def fence_def py_def strip_def strip_chars_def strip_set_def is_space_def
  no_edge_def sublist_code

lemma py_python: "py ''python'' = [112, 121, 116, 104, 111, 110]"
  by (simp add: py_def)

lemma py_ticks: "py ''```'' = [96, 96, 96]"
  by (simp add: py_def)

lemma strip_set_Cons: "P a \<Longrightarrow> strip_set P (a # s) = strip_set P s"
  by (simp add: strip_set_def)

lemma strip_set_snoc: "P a \<Longrightarrow> strip_set P (s @ [a]) = strip_set P s"
proof (cases "\<forall>x\<in>set s. P x")
  case True
  assume "P a"
  from True have a: "dropWhile P s = []" by simp
  from True \<open>P a\<close> have b: "dropWhile P (s @ [a]) = []" by simp
  show ?thesis unfolding strip_set_def a b by simp
next
  case False
  assume "P a"
  from False have "dropWhile P (s @ [a]) = dropWhile P s @ [a]"
    by (auto simp: dropWhile_append1)
  with \<open>P a\<close> show ?thesis by (simp add: strip_set_def)
qed

lemma strip_set_wrap:
  "\<forall>x\<in>set pre. P x \<Longrightarrow> \<forall>x\<in>set post. P x \<Longrightarrow> strip_set P (pre @ s @ post) = strip_set P s"
proof (induction pre)
  case Nil
  then show ?case
  proof (induction post rule: rev_induct)
    case Nil
    then show ?case by simp
  next
    case (snoc a post)
    have "strip_set P ((s @ post) @ [a]) = strip_set P (s @ post)"
      using snoc.prems by (intro strip_set_snoc) simp
    with snoc show ?case by simp
  qed
next
  case (Cons a pre)
  then show ?case by (simp add: strip_set_Cons)
qed

lemma strip_set_id: "no_edge P s \<Longrightarrow> strip_set P s = s"
proof (cases "s = []")
  case True
  then show ?thesis by (simp add: strip_set_def)
next
  case False
  assume "no_edge P s"
  with False have h: "\<not> P (hd s)" and l: "\<not> P (last s)" by (simp_all add: no_edge_def)
  from False h have a: "dropWhile P s = s" by (cases s) simp_all
  from False l have "\<not> P (hd (rev s))" by (simp add: hd_rev)
  with False have "dropWhile P (rev s) = rev s" by (cases "rev s") simp_all
  with a show ?thesis by (simp add: strip_set_def)
qed

lemma no_edge_strip_set: "no_edge P (strip_set P s)"
proof -
  define t where "t = dropWhile P s"
  have t: "t = [] \<or> \<not> P (hd t)" unfolding t_def by (metis hd_dropWhile)
  define u where "u = dropWhile P (rev t)"
  have u: "u = [] \<or> \<not> P (hd u)" unfolding u_def by (metis hd_dropWhile)
  have su: "strip_set P s = rev u" by (simp add: strip_set_def u_def t_def)
  show ?thesis
  proof (cases "u = []")
    case True
    then show ?thesis by (simp add: su no_edge_def)
  next
    case False
    then have l: "\<not> P (last (rev u))" using u by (simp add: last_rev)
    obtain ys where ys: "rev t = ys @ u" unfolding u_def by (metis takeWhile_dropWhile_id)
    then have "t = rev u @ rev ys" by (metis rev_append rev_rev_ident)
    then have "hd t = hd (rev u)" using False by simp
    moreover have "t \<noteq> []" using ys False by auto
    ultimately have "\<not> P (hd (rev u))" using t by auto
    with l False show ?thesis by (simp add: su no_edge_def)
  qed
qed

lemma length_strip_set: "length (strip_set P s) \<le> length s"
proof -
  have "length (dropWhile P (rev (dropWhile P s))) \<le> length (rev (dropWhile P s))"
    by (rule length_dropWhile_le)
  also have "\<dots> \<le> length s" by (simp add: length_dropWhile_le)
  finally show ?thesis by (simp add: strip_set_def)
qed

lemma dropWhile_length_eq: "length (dropWhile P s) = length s \<Longrightarrow> dropWhile P s = s"
proof (cases s)
  case Nil
  then show ?thesis by simp
next
  case (Cons a as)
  assume l: "length (dropWhile P s) = length s"
  have "length (dropWhile P as) \<le> length as" by (rule length_dropWhile_le)
  with l Cons show ?thesis by (auto split: if_splits)
qed

lemma strip_set_length_eq:
  assumes "length (strip_set P s) = length s"
  shows "strip_set P s = s"
proof -
  have a: "length (dropWhile P (rev (dropWhile P s))) \<le> length (rev (dropWhile P s))"
    by (rule length_dropWhile_le)
  have b: "length (dropWhile P s) \<le> length s" by (rule length_dropWhile_le)
  from assms a b have "length (dropWhile P s) = length s" by (simp add: strip_set_def)
  then have c: "dropWhile P s = s" by (rule dropWhile_length_eq)
  with assms have "length (dropWhile P (rev s)) = length (rev s)" by (simp add: strip_set_def)
  then have "dropWhile P (rev s) = rev s" by (rule dropWhile_length_eq)
  with c show ?thesis by (simp add: strip_set_def)
qed

lemma strip_set_fix_iff: "strip_set P s = s \<longleftrightarrow> no_edge P s"
  by (metis no_edge_strip_set strip_set_id)

lemma replace_no_occ: "\<not> sublist old s \<Longrightarrow> replace old new s = s"
proof (induction old new s rule: replace.induct)
  case (1 new s)
  then show ?case by simp
next
  case (2 a old new)
  then show ?case by simp
next
  case (3 a old new c cs)
  from 3(3) have np: "\<not> prefix (a # old) (c # cs)" and ns: "\<not> sublist (a # old) cs"
    by (simp_all add: sublist_Cons_right)
  from 3(2)[OF np ns] np show ?case by auto
qed

lemma length_replace_empty: "length (replace (a # old) [] s) \<le> length s"
proof (induction s rule: length_induct)
  case (1 s)
  show ?case
  proof (cases s)
    case Nil
    then show ?thesis by simp
  next
    case (Cons c cs)
    show ?thesis
    proof (cases "prefix (a # old) (c # cs)")
      case True
      have "length (drop (length old) cs) < length s" using Cons by simp
      with 1 have "length (replace (a # old) [] (drop (length old) cs)) \<le> length (drop (length old) cs)"
        by blast
      also have "\<dots> \<le> length s" using Cons by simp
      finally show ?thesis using True Cons by auto
    next
      case False
      have "length cs < length s" using Cons by simp
      with 1 have "length (replace (a # old) [] cs) \<le> length cs" by blast
      then show ?thesis using False Cons by auto
    qed
  qed
qed

lemma length_replace_occ: "sublist (a # old) s \<Longrightarrow> length (replace (a # old) [] s) < length s"
proof (induction s)
  case Nil
  then show ?case by simp
next
  case (Cons c cs)
  show ?case
  proof (cases "prefix (a # old) (c # cs)")
    case True
    have "length (replace (a # old) [] (drop (length old) cs)) \<le> length (drop (length old) cs)"
      by (rule length_replace_empty)
    also have "\<dots> \<le> length cs" by simp
    finally show ?thesis using True by auto
  next
    case False
    then have "sublist (a # old) cs" using Cons.prems by (auto simp: sublist_Cons_right)
    then have "length (replace (a # old) [] cs) < length cs" by (rule Cons.IH)
    then show ?thesis using False by auto
  qed
qed

text \<open>An occurrence inside a string that is guarded by a character foreign to the pattern
  lies inside the guarded part.\<close>

lemma sublist_guarded:
  assumes "sublist old (g # s @ [g])" and "g \<notin> set old" and "old \<noteq> []"
  shows "sublist old s"
proof -
  from assms(2,3) have "\<not> prefix old (g # s @ [g])" by (cases old) auto
  with assms(1) have "sublist old (s @ [g])" by (simp add: sublist_Cons_right)
  then have "suffix old (s @ [g]) \<or> sublist old s" by (simp add: sublist_snoc)
  moreover have "\<not> suffix old (s @ [g])"
  proof
    assume "suffix old (s @ [g])"
    then obtain zs where "s @ [g] = zs @ old" by (auto simp: suffix_def)
    with assms(3) have "last old = g" by (metis last_appendR last_snoc)
    with assms(2,3) show False using last_in_set by blast
  qed
  ultimately show ?thesis by blast
qed

subsection \<open>The sanitizer on a fenced reply\<close>

lemma strip_fence: "strip (fence code) = fence code"
  unfolding strip_def by (rule strip_set_id) (simp add: no_edge_def fence_def py_def is_space_def)

lemma strip_chars_fence:
  "strip_chars (py ''```'') (fence code) = py ''python'' @ [10] @ code @ [10]"
proof -
  let ?P = "\<lambda>c. c \<in> set (py ''```'')"
  let ?body = "py ''python'' @ [10] @ code @ [10]"
  have "fence code = py ''```'' @ ?body @ py ''```''"
    by (simp add: fence_def py_def)
  moreover have "strip_set ?P (py ''```'' @ ?body @ py ''```'') = strip_set ?P ?body"
    by (rule strip_set_wrap) simp_all
  ultimately have "strip_set ?P (fence code) = strip_set ?P ?body"
    by simp
  also have "\<dots> = ?body"
    by (rule strip_set_id) (simp add: no_edge_def py_ticks py_python)
  finally show ?thesis by (simp add: strip_chars_def)
qed

lemma replace_python_prefix:
  "replace (py ''python'') [] (py ''python'' @ s) = replace (py ''python'') [] s"
  by (simp add: py_python)

text \<open>
  What the sanitizer returns for a fenced body, whatever the body: the fence and the tag
  go, and the body, between its two newlines, still passes through \<open>replace\<close> and the
  last \<open>strip\<close>.
\<close>

lemma clean_python_code_fence_general:
  "clean_python_code (fence code) = strip (replace (py ''python'') [] ([10] @ code @ [10]))"
  by (simp only: clean_python_code_def strip_fence strip_chars_fence replace_python_prefix)

text \<open>
  The \<open>replace\<close> is not confined to the language tag: a body that itself contains the
  letters \<open>python\<close> loses them. Here the body \<open>print('python')\<close> comes back as \<open>print('')\<close>.
\<close>

lemma clean_python_code_removes_inner_python:
  "clean_python_code (fence (py ''print('' @ [39] @ py ''python'' @ [39] @ py '')''))
     = py ''print('' @ [39, 39] @ py '')''"
  by (simp add: string_eval)

text \<open>
  C4. Claimed: for every code body, sanitizing the fenced reply returns the body verbatim.
  The last \<open>strip()\<close> also removes white space that belongs to the body: the body
  \<open>fig = 1\<close> followed by a newline comes back without its newline.
\<close>

theorem clean_python_code_fence_not_verbatim:
  "clean_python_code (fence (py ''fig = 1'' @ [10])) \<noteq> py ''fig = 1'' @ [10]"
  by (simp add: string_eval)

text \<open>
  C4, as the code has it: for every code body in which \<open>python\<close> does not occur, the
  sanitizer applied to the fenced reply returns the body with the white space at its two
  ends removed, and nothing else changed; so a body that neither begins nor ends with
  white space comes back verbatim.
\<close>

theorem clean_python_code_fence:
  assumes "\<not> sublist (py ''python'') code"
  shows "clean_python_code (fence code) = strip code
         \<and> (no_edge is_space code \<longrightarrow> clean_python_code (fence code) = code)"
proof -
  have "\<not> sublist (py ''python'') (10 # code @ [10])"
    using assms sublist_guarded[of "py ''python''" 10 code] by (auto simp: py_python)
  then have "replace (py ''python'') [] ([10] @ code @ [10]) = [10] @ code @ [10]"
    by (simp add: replace_no_occ)
  moreover have "strip ([10] @ code @ [10]) = strip code"
    unfolding strip_def by (rule strip_set_wrap) (simp_all add: is_space_def)
  ultimately have "clean_python_code (fence code) = strip code"
    by (simp only: clean_python_code_fence_general)
  then show ?thesis by (simp add: strip_def strip_set_id)
qed

theorem clean_python_code_fence_witness:
  "\<not> sublist (py ''python'') (py ''fig = 1'') \<and> no_edge is_space (py ''fig = 1'')
   \<and> clean_python_code (fence (py ''fig = 1'')) = py ''fig = 1''"
proof -
  have a: "\<not> sublist (py ''python'') (py ''fig = 1'')" by (simp add: string_eval)
  have b: "no_edge is_space (py ''fig = 1'')" by (simp add: string_eval)
  from clean_python_code_fence[OF a] b show ?thesis using a by blast
qed

text \<open>
  C5. Claimed: \<open>clean(clean(s)) = clean(s)\<close> for every \<open>s\<close>, in particular for every
  output of the sanitizer. Removing an occurrence of \<open>python\<close> can bring a new one
  together: \<open>pytpythonhon\<close> is itself an output of the sanitizer, it is sanitized to
  \<open>python\<close>, and that to the empty string.
\<close>

theorem clean_python_code_not_idempotent:
  "clean_python_code (py ''pytpytpythonhonhon'') = py ''pytpythonhon''
   \<and> clean_python_code (py ''pytpythonhon'') = py ''python''
   \<and> clean_python_code (clean_python_code (py ''pytpythonhon'')) = []"
  by (simp add: string_eval)

text \<open>
  C5, as the code has it: a second pass changes nothing exactly when the first result has
  no occurrence of \<open>python\<close> and has no backtick at either end.
\<close>

theorem clean_python_code_idempotent_iff:
  "clean_python_code (clean_python_code s) = clean_python_code s \<longleftrightarrow>
     \<not> sublist (py ''python'') (clean_python_code s) \<and> no_edge (\<lambda>c. c = 96) (clean_python_code s)"
proof -
  define t where "t = clean_python_code s"
  let ?B = "\<lambda>c. c \<in> set (py ''```'')"
  have B: "?B = (\<lambda>c. c = 96)" by (auto simp: py_ticks)
  have ws: "strip t = t"
    unfolding t_def clean_python_code_def strip_def
    by (rule strip_set_id) (rule no_edge_strip_set)
  have ct: "clean_python_code t = strip (replace (py ''python'') [] (strip_set ?B t))"
    by (simp add: clean_python_code_def ws strip_chars_def)
  have l1: "length (strip_set ?B t) \<le> length t" by (rule length_strip_set)
  have l2: "length (replace (py ''python'') [] (strip_set ?B t)) \<le> length (strip_set ?B t)"
    unfolding py_python by (rule length_replace_empty)
  have l3: "length (clean_python_code t) \<le> length (replace (py ''python'') [] (strip_set ?B t))"
    unfolding ct strip_def by (rule length_strip_set)
  show ?thesis unfolding t_def[symmetric]
  proof
    assume eq: "clean_python_code t = t"
    have e1: "strip_set ?B t = t"
    proof (rule strip_set_length_eq)
      from l1 l2 l3 eq show "length (strip_set ?B t) = length t" by simp
    qed
    have e2: "\<not> sublist (py ''python'') t"
    proof
      assume "sublist (py ''python'') t"
      then have "length (replace (py ''python'') [] t) < length t"
        unfolding py_python by (rule length_replace_occ)
      with l3 e1 eq show False by simp
    qed
    from e1 e2 show "\<not> sublist (py ''python'') t \<and> no_edge (\<lambda>c. c = 96) t"
      by (simp add: strip_set_fix_iff B)
  next
    assume "\<not> sublist (py ''python'') t \<and> no_edge (\<lambda>c. c = 96) t"
    then show "clean_python_code t = t"
      by (simp add: ct B strip_set_id replace_no_occ ws)
  qed
qed

theorem clean_python_code_idempotent_witness:
  "clean_python_code (clean_python_code (fence (py ''fig = 1''))) = clean_python_code (fence (py ''fig = 1''))"
proof -
  have a: "clean_python_code (fence (py ''fig = 1'')) = py ''fig = 1''" by (simp add: string_eval)
  have b: "\<not> sublist (py ''python'') (py ''fig = 1'')" by (simp add: string_eval)
  have c: "no_edge (\<lambda>c. c = 96) (py ''fig = 1'')" by (simp add: string_eval)
  show ?thesis
    by (rule iffD2[OF clean_python_code_idempotent_iff]) (simp only: a b c simp_thms)
qed

section \<open>Properties of the dataset\<close>

lemma py_inj: "py a = py b \<longleftrightarrow> a = b"
  by (simp add: py_def inj_map_eq_map inj_def)

lemma map_of_columns:
  "map_of (map (\<lambda>kv. (fst kv, f (snd kv))) data) k = map_option f (map_of data k)"
  by (induction data) auto

lemma pd_DataFrame_columns:
  "pd_DataFrame data = Inr df \<Longrightarrow> map fst (df_columns df) = map fst data"
  by (auto simp: pd_DataFrame_def comp_def split: sum.splits)

lemma pd_DataFrame_missing:
  assumes "pd_DataFrame data = Inr df" and "map_of data k = None"
  shows "get_column df k = Inl (KeyError k)"
proof -
  from assms(1) have "map fst (df_columns df) = map fst data" by (rule pd_DataFrame_columns)
  then have "k \<in> fst ` set (df_columns df) \<longleftrightarrow> k \<in> fst ` set data"
    by (metis list.set_map)
  with assms(2) have "map_of (df_columns df) k = None"
    by (simp add: map_of_eq_None_iff)
  then show ?thesis by (simp add: get_column_def)
qed

lemma pd_DataFrame_error: "pd_DataFrame data = Inl e \<Longrightarrow> e = ValueError"
  by (auto simp: pd_DataFrame_def extract_index_def Let_def split: sum.splits if_splits)

lemma segments_frame_missing_key:
  assumes "map_of body (py ''revenue_breakdown'') = None"
  shows "segments_frame body = Inl ValueError \<or> segments_frame body = Inl (KeyError (py ''revenue_breakdown''))"
proof (cases "pd_DataFrame body")
  case (Inl e)
  then show ?thesis using pd_DataFrame_error[OF Inl] by (simp add: segments_frame_def)
next
  case (Inr df)
  then show ?thesis using pd_DataFrame_missing[OF Inr assms] by (simp add: segments_frame_def)
qed

lemma align_same:
  assumes "distinct idx" and "length vals = length idx"
  shows "align idx \<lparr>s_name = k, s_index = idx, s_values = vals\<rparr> = vals"
proof -
  have "map (\<lambda>l. case map_of (zip idx vals) l of Some c \<Rightarrow> c | None \<Rightarrow> NaN) idx = vals"
  proof (rule nth_equalityI)
    show "length (map (\<lambda>l. case map_of (zip idx vals) l of Some c \<Rightarrow> c | None \<Rightarrow> NaN) idx) = length vals"
      using assms(2) by simp
  next
    fix i assume "i < length (map (\<lambda>l. case map_of (zip idx vals) l of Some c \<Rightarrow> c | None \<Rightarrow> NaN) idx)"
    then have i: "i < length idx" by simp
    with assms have "map_of (zip idx vals) (idx ! i) = Some (vals ! i)"
      by (simp add: map_of_zip_nth)
    with i show "map (\<lambda>l. case map_of (zip idx vals) l of Some c \<Rightarrow> c | None \<Rightarrow> NaN) idx ! i = vals ! i"
      by simp
  qed
  then show ?thesis by (simp add: align_def)
qed

lemma lens_single:
  assumes "distinct (map fst body)" and "map_of body k = Some (JArr xs)"
    and "\<forall>kv\<in>set body. fst kv \<noteq> k \<longrightarrow> list_len (snd kv) = None"
  shows "List.map_filter (\<lambda>kv. list_len (snd kv)) body = [length xs]"
  using assms
proof (induction body)
  case Nil
  then show ?case by simp
next
  case (Cons p body)
  show ?case
  proof (cases "fst p = k")
    case True
    with Cons.prems(2) have p: "snd p = JArr xs" by (cases p) simp
    from True Cons.prems(1) have "k \<notin> fst ` set body" by auto
    have "\<forall>kv\<in>set body. list_len (snd kv) = None"
    proof
      fix kv assume kv: "kv \<in> set body"
      with \<open>k \<notin> fst ` set body\<close> have "fst kv \<noteq> k" by force
      with kv Cons.prems(3) show "list_len (snd kv) = None" by simp
    qed
    then have "List.map_filter (\<lambda>kv. list_len (snd kv)) body = []"
      by (induction body) (auto simp: List.map_filter_simps)
    with p show ?thesis by (simp add: List.map_filter_simps)
  next
    case False
    with Cons.prems have "List.map_filter (\<lambda>kv. list_len (snd kv)) body = [length xs]"
      by (intro Cons.IH) (auto split: if_splits)
    moreover from False Cons.prems(3) have "list_len (snd p) = None" by simp
    ultimately show ?thesis by (simp add: List.map_filter_simps)
  qed
qed

lemma dicts_none:
  assumes "\<forall>kv\<in>set body. dict_keys (snd kv) = None"
  shows "List.map_filter (\<lambda>kv. dict_keys (snd kv)) body = []"
  using assms by (induction body) (auto simp: List.map_filter_simps)


lemma is_scalar_column: "is_scalar v \<Longrightarrow> list_len v = None \<and> dict_keys v = None \<and> column_cells idx v = replicate (length idx) (Val v)"
  by (cases v) simp_all

lemma segments_frame_expected:
  assumes d: "distinct (map fst body)"
    and rb: "map_of body (py ''revenue_breakdown'') = Some (JArr segs)"
    and sy: "map_of body (py ''symbol'') = Some s" and fy: "map_of body (py ''financial_year'') = Some y"
    and sc: "\<forall>kv\<in>set body. fst kv \<noteq> py ''revenue_breakdown'' \<longrightarrow> is_scalar (snd kv)"
  shows "segments_frame body =
           Inr \<lparr>df_index = map Pos [0..<length segs],
                df_columns = [(py ''revenue_breakdown'', map Val segs),
                              (py ''symbol'', replicate (length segs) (Val s)),
                              (py ''financial_year'', replicate (length segs) (Val y))]\<rparr>"
proof -
  let ?idx = "map Pos [0..<length segs]"
  have ne: "body \<noteq> []" using rb by auto
  have ll: "\<forall>kv\<in>set body. fst kv \<noteq> py ''revenue_breakdown'' \<longrightarrow> list_len (snd kv) = None"
    using sc is_scalar_column by blast
  have lens: "List.map_filter (\<lambda>kv. list_len (snd kv)) body = [length segs]"
    by (rule lens_single[OF d rb ll])
  have "\<forall>kv\<in>set body. dict_keys (snd kv) = None"
  proof
    fix kv assume kv: "kv \<in> set body"
    show "dict_keys (snd kv) = None"
    proof (cases "fst kv = py ''revenue_breakdown''")
      case True
      from kv d have "map_of body (fst kv) = Some (snd kv)"
        by (intro map_of_is_SomeI) simp_all
      with True rb have "snd kv = JArr segs" by simp
      then show ?thesis by simp
    next
      case False
      with kv sc is_scalar_column show ?thesis by blast
    qed
  qed
  then have dicts: "List.map_filter (\<lambda>kv. dict_keys (snd kv)) body = []" by (rule dicts_none)
  have idx: "extract_index body = Inr ?idx"
    using ne by (simp add: extract_index_def lens dicts)
  define raw where "raw = \<lparr>df_index = ?idx, df_columns = map (\<lambda>kv. (fst kv, column_cells ?idx (snd kv))) body\<rparr>"
  have raw: "pd_DataFrame body = Inr raw" by (simp add: pd_DataFrame_def idx raw_def)
  have ss: "is_scalar s" using map_of_SomeD[OF sy] sc by (force simp: py_inj)
  have sy': "is_scalar y" using map_of_SomeD[OF fy] sc by (force simp: py_inj)
  have c1: "get_column raw (py ''revenue_breakdown'') =
              Inr \<lparr>s_name = py ''revenue_breakdown'', s_index = ?idx, s_values = map Val segs\<rparr>"
    by (simp add: get_column_def raw_def map_of_columns rb)
  have c2: "get_column raw (py ''symbol'') =
              Inr \<lparr>s_name = py ''symbol'', s_index = ?idx, s_values = replicate (length segs) (Val s)\<rparr>"
    using is_scalar_column[OF ss, of ?idx] by (simp add: get_column_def raw_def map_of_columns sy)
  have c3: "get_column raw (py ''financial_year'') =
              Inr \<lparr>s_name = py ''financial_year'', s_index = ?idx, s_values = replicate (length segs) (Val y)\<rparr>"
    using is_scalar_column[OF sy', of ?idx] by (simp add: get_column_def raw_def map_of_columns fy)
  have di: "distinct ?idx" by (simp add: distinct_map inj_on_def)
  have a2: "align ?idx \<lparr>s_name = py ''symbol'', s_index = ?idx, s_values = replicate (length segs) (Val s)\<rparr>
              = replicate (length segs) (Val s)"
    by (rule align_same[OF di]) simp
  have a3: "align ?idx \<lparr>s_name = py ''financial_year'', s_index = ?idx, s_values = replicate (length segs) (Val y)\<rparr>
              = replicate (length segs) (Val y)"
    by (rule align_same[OF di]) simp
  show ?thesis
    by (simp add: segments_frame_def raw c1 c2 c3 frame_of_series_def set_column_def a2 a3 py_inj)
qed

text \<open>
  C9. For every response of the expected shape (distinct keys; \<open>revenue_breakdown\<close> a list;
  \<open>symbol\<close>, \<open>financial_year\<close> and whatever else the object holds scalars), the
  dataset of \<open>segments_summary\<close> is built, has one row per segment, and every row carries
  the \<open>symbol\<close> and the \<open>financial_year\<close> of the top level of the response, beside its
  own segment.
\<close>

theorem segments_frame_tags_every_row:
  assumes "distinct (map fst body)"
    and "map_of body (py ''revenue_breakdown'') = Some (JArr segs)"
    and "map_of body (py ''symbol'') = Some s"
    and "map_of body (py ''financial_year'') = Some y"
    and "\<forall>kv\<in>set body. fst kv \<noteq> py ''revenue_breakdown'' \<longrightarrow> is_scalar (snd kv)"
  shows "\<exists>df. segments_frame body = Inr df \<and> n_rows df = length segs
           \<and> (\<forall>i<length segs.
                  cell_at df (py ''symbol'') i = Some (Val s)
                \<and> cell_at df (py ''financial_year'') i = Some (Val y)
                \<and> cell_at df (py ''revenue_breakdown'') i = Some (Val (segs ! i)))"
  by (simp add: segments_frame_expected[OF assms] n_rows_def cell_at_def py_inj)

theorem segments_frame_tags_every_row_witness:
  "\<exists>df. segments_frame bbca_body = Inr df \<and> n_rows df = 2
     \<and> cell_at df (py ''symbol'') 0 = Some (Val (JStr (py ''BBCA'')))
     \<and> cell_at df (py ''symbol'') 1 = Some (Val (JStr (py ''BBCA'')))
     \<and> cell_at df (py ''financial_year'') 0 = Some (Val (JInt 2023))
     \<and> cell_at df (py ''financial_year'') 1 = Some (Val (JInt 2023))"
proof -
  let ?segs = "[JObj [(py ''source'', JStr (py ''Retail Banking'')), (py ''value'', JFloat 5000000000000 0)],
                JObj [(py ''source'', JStr (py ''Corporate Banking'')), (py ''value'', JFloat 3000000000000 0)]]"
  have 1: "distinct (map fst bbca_body)" by (simp add: bbca_body_def py_inj)
  have 2: "map_of bbca_body (py ''revenue_breakdown'') = Some (JArr ?segs)"
    by (simp add: bbca_body_def py_inj)
  have 3: "map_of bbca_body (py ''symbol'') = Some (JStr (py ''BBCA''))"
    by (simp add: bbca_body_def py_inj)
  have 4: "map_of bbca_body (py ''financial_year'') = Some (JInt 2023)"
    by (simp add: bbca_body_def py_inj)
  have 5: "\<forall>kv\<in>set bbca_body. fst kv \<noteq> py ''revenue_breakdown'' \<longrightarrow> is_scalar (snd kv)"
    by (simp add: bbca_body_def py_inj)
  from segments_frame_tags_every_row[OF 1 2 3 4 5]
  obtain df where df: "segments_frame bbca_body = Inr df" "n_rows df = length ?segs"
    and rows: "\<forall>i<length ?segs.
                  cell_at df (py ''symbol'') i = Some (Val (JStr (py ''BBCA'')))
                \<and> cell_at df (py ''financial_year'') i = Some (Val (JInt 2023))
                \<and> cell_at df (py ''revenue_breakdown'') i = Some (Val (?segs ! i))"
    by blast
  from rows have "cell_at df (py ''symbol'') 0 = Some (Val (JStr (py ''BBCA'')))"
    and "cell_at df (py ''symbol'') 1 = Some (Val (JStr (py ''BBCA'')))"
    and "cell_at df (py ''financial_year'') 0 = Some (Val (JInt 2023))"
    and "cell_at df (py ''financial_year'') 1 = Some (Val (JInt 2023))"
    by simp_all
  with df show ?thesis by auto
qed

section \<open>Properties of a run\<close>

subsection \<open>Sequencing\<close>

lemma io_bind_emit: "io_bind (emit ev) f tr = f () (tr @ [ev])"
  by (simp add: io_bind_def emit_def)

lemma io_bind_lift_Inr: "io_bind (lift (Inr x)) f tr = f x tr"
  by (simp add: io_bind_def lift_def)

lemma io_bind_lift_Inl: "io_bind (lift (Inl e)) f tr = (Inl e, tr)"
  by (simp add: io_bind_def lift_def)

lemma io_bind_lift: "io_bind (lift r) f tr = (case r of Inl e \<Rightarrow> (Inl e, tr) | Inr x \<Rightarrow> f x tr)"
  by (simp add: io_bind_def lift_def split: sum.splits)

lemma io_bind_return: "io_bind (io_return x) f tr = f x tr"
  by (simp add: io_bind_def io_return_def)

lemmas io_simps = io_bind_emit io_bind_lift_Inr io_bind_lift_Inl io_bind_return

lemma io_bind_Inl: "m tr = (Inl e, tr') \<Longrightarrow> io_bind m f tr = (Inl e, tr')"
  by (simp add: io_bind_def)

lemma io_bind_Inr: "m tr = (Inr x, tr') \<Longrightarrow> io_bind m f tr = f x tr'"
  by (simp add: io_bind_def)

lemma llm_content_eq:
  "llm_content w p tr = (llm_invoke w (prompts_sent tr) p, tr @ [LlmInvoke p])"
  by (simp add: llm_content_def prompts_sent_def)

lemma io_bind_llm:
  "io_bind (llm_content w p) f tr =
     (case llm_invoke w (prompts_sent tr) p of
        Inl e \<Rightarrow> (Inl e, tr @ [LlmInvoke p])
      | Inr x \<Rightarrow> f x (tr @ [LlmInvoke p]))"
  by (simp add: io_bind_def llm_content_eq split: sum.splits)

lemma main_pressed:
  "button_pressed w \<Longrightarrow> main w [] = sections w (ticker_input w) [TextInput ticker_label, Button button_label]"
  by (simp add: main_def io_simps Let_def)

lemma main_not_pressed:
  "\<not> button_pressed w \<Longrightarrow> main w [] = (Inr (), [TextInput ticker_label, Button button_label])"
  by (simp add: main_def io_simps Let_def io_return_def)

lemma visualize_exec_fault:
  assumes "llm_invoke w (prompts_sent tr) (visualize_prompt (to_string w d) t) = Inr reply"
    and "exec_builtin w (caller_globals w) (caller_locals w) (clean_python_code reply)
           (Some Map.empty) (Some Map.empty) = Inl e"
  shows "visualize_segments w t d tr =
           (Inl e, tr @ [LlmInvoke (visualize_prompt (to_string w d) t), Expander visualize_title,
                         Exec (clean_python_code reply)])"
  using assms
  by (simp add: visualize_segments_def Let_def io_bind_llm io_simps)

lemma visualize_missing_fig:
  assumes "llm_invoke w (prompts_sent tr) (visualize_prompt (to_string w d) t) = Inr reply"
    and "exec_builtin w (caller_globals w) (caller_locals w) (clean_python_code reply)
           (Some Map.empty) (Some Map.empty) = Inr exec_locals"
    and "exec_locals (py ''fig'') = None"
  shows "visualize_segments w t d tr =
           (Inl (KeyError (py ''fig'')),
            tr @ [LlmInvoke (visualize_prompt (to_string w d) t), Expander visualize_title,
                  Exec (clean_python_code reply)])"
  using assms
  by (simp add: visualize_segments_def Let_def io_bind_llm io_simps)

lemma sections_summary_fails:
  "segments_summary w t tr = (Inl e, tr1) \<Longrightarrow> sections w t tr = (Inl e, tr1)"
  by (simp add: sections_def io_bind_Inl)

lemma sections_visualize_fails:
  "segments_summary w t tr = (Inr d, tr1) \<Longrightarrow> visualize_segments w t d tr1 = (Inl e, tr2)
   \<Longrightarrow> sections w t tr = (Inl e, tr2)"
  by (simp add: sections_def io_bind_Inl io_bind_Inr)

lemma sections_interpret_fails:
  "segments_summary w t tr = (Inr d, tr1) \<Longrightarrow> visualize_segments w t d tr1 = (Inr u, tr2)
   \<Longrightarrow> interpret_segments w d tr2 = (Inl e, tr3) \<Longrightarrow> sections w t tr = (Inl e, tr3)"
  by (simp add: sections_def io_bind_Inl io_bind_Inr)

lemma sections_risk:
  "segments_summary w t tr = (Inr d, tr1) \<Longrightarrow> visualize_segments w t d tr1 = (Inr u, tr2)
   \<Longrightarrow> interpret_segments w d tr2 = (Inr u', tr3) \<Longrightarrow> sections w t tr = risk_analysis w d tr3"
  by (simp add: sections_def io_bind_Inl io_bind_Inr)

subsection \<open>A section that fails shows no content\<close>

lemma content_append: "content (tr @ evs) = content tr @ content evs"
  by (simp add: content_def)

lemma content_simps:
  "content [] = []"
  "content (LlmInvoke p # evs) = content evs"
  "content (HttpGet u # evs) = content evs"
  "content (Exec c # evs) = content evs"
  "content (Expander x # evs) = content evs"
  "content (Header h # evs) = content evs"
  "content (TextInput l # evs) = content evs"
  "content (Button b # evs) = content evs"
  by (simp_all add: content_def)

lemma run_llm_eq:
  "io_bind (run_llm w tmpl d) f tr =
     (case format_prompt w tmpl (to_string w d) of
        Inl e \<Rightarrow> (Inl e, tr)
      | Inr p \<Rightarrow>
          (case llm_invoke w (prompts_sent tr) p of
             Inl e \<Rightarrow> (Inl e, tr @ [LlmInvoke p])
           | Inr x \<Rightarrow> f x (tr @ [LlmInvoke p])))"
  by (simp add: run_llm_def io_bind_def lift_def llm_content_eq split: sum.splits)

lemma interpret_fails_content:
  "interpret_segments w d tr = (Inl e, tr') \<Longrightarrow> content tr' = content tr"
  by (auto simp: interpret_segments_def run_llm_eq io_bind_emit emit_def content_append content_simps
           split: sum.splits)

lemma risk_fails_content:
  "risk_analysis w d tr = (Inl e, tr') \<Longrightarrow> content tr' = content tr"
  by (auto simp: risk_analysis_def run_llm_eq io_bind_emit emit_def content_append content_simps
           split: sum.splits)

lemma visualize_fails_content:
  "visualize_segments w t d tr = (Inl e, tr') \<Longrightarrow> content tr' = content tr"
  by (auto simp: visualize_segments_def Let_def io_bind_llm io_bind_lift io_bind_emit emit_def
                 content_append content_simps
           split: sum.splits option.splits)

lemma fetch_data_eq:
  "fetch_data w endpoint params tr =
     (case http_get w (BASE_URL @ py ''/'' @ endpoint) params of
        NoReply \<Rightarrow> Inl ConnectionError
      | Reply status body \<Rightarrow>
          if 400 \<le> status \<and> status < 600 then Inl (HTTPError status)
          else (case body of NotJson \<Rightarrow> Inl JSONDecodeError | Object j \<Rightarrow> Inr j),
      tr @ [HttpGet (BASE_URL @ py ''/'' @ endpoint)])"
  by (simp add: fetch_data_def Let_def io_bind_emit lift_def)

lemma summary_fails_content:
  "segments_summary w t tr = (Inl e, tr') \<Longrightarrow> content tr' = content tr"
  by (auto simp: segments_summary_def io_bind_emit io_bind_lift run_llm_eq emit_def io_return_def
                 io_bind_def[of "fetch_data w x y" for x y] fetch_data_eq
                 content_append content_simps
           split: sum.splits http_reply.splits http_body.splits if_splits)

lemma summary_frame_fails:
  assumes "http_get w (segments_url t) None = Reply status (Object body)"
    and "\<not> (400 \<le> status \<and> status < 600)"
    and "segments_frame body = Inl e"
  shows "segments_summary w t tr = (Inl e, tr @ [Header (summary_header t), HttpGet (segments_url t)])"
  using assms
  by (auto simp: segments_summary_def io_bind_emit io_bind_lift
                 io_bind_def[of "fetch_data w x y" for x y] fetch_data_eq segments_url_def)

lemma fetch_data_returns_body:
  assumes "http_get w (segments_url t) None = Reply status (Object body)"
    and "\<not> (400 \<le> status \<and> status < 600)"
  shows "fetch_data w (py ''company/get-segments/'' @ t @ py ''/'') None tr
           = (Inr body, tr @ [HttpGet (segments_url t)])"
  using assms by (auto simp: fetch_data_eq segments_url_def)

subsection \<open>Evaluating the example runs\<close>

lemmas run_eval =
  main_def sections_def segments_summary_def visualize_segments_def interpret_segments_def
  risk_analysis_def run_llm_def llm_content_def fetch_data_def
  io_bind_def io_return_def lift_def emit_def shown_def prompts_sent_def content_def start_def
  segments_url_def demo_world_def demo_world_asii_def replies_def replies_failing_def Let_def

lemmas frame_eval =
  segments_frame_def pd_DataFrame_def extract_index_def get_column_def frame_of_series_def
  set_column_def align_def List.map_filter_def first_unique_def cell_at_def n_rows_def
  bbca_body_def no_breakdown_body_def

lemmas exec_eval =
  python_exec_def run_source_def demo_python_def demo_parse_def
  code_fig_def code_no_fig_def code_ambient_def code_import_def code_local_import_def
  code_frame_def code_main_def
  prog_import_def prog_fig_def prog_local_import_def prog_frame_def prog_main_def
  lookup_global_def local_names_def top_globals_def bind_top_def

subsection \<open>A response without \<open>revenue_breakdown\<close>\<close>

text \<open>
  C6. Claimed: for a body that is JSON but lacks \<open>revenue_breakdown\<close> the fetch fails with
  a parse error and the page shows an error section. In the example \<open>fetch_data\<close> returns
  the body as it is; the \<open>ValueError\<close> is raised when the dataset is built, it ends \<open>main\<close>,
  and the page shows the two widgets and the header only.
\<close>

theorem missing_key_is_not_a_fetch_error:
  "fetch_data (demo_world no_breakdown_body (replies (fence code_fig)))
      (py ''company/get-segments/'' @ py ''BBCA'' @ py ''/'') None []
     = (Inr no_breakdown_body, [HttpGet (segments_url (py ''BBCA''))])
   \<and> main (demo_world no_breakdown_body (replies (fence code_fig))) []
     = (Inl ValueError,
        [TextInput ticker_label, Button button_label, Header (summary_header (py ''BBCA'')),
         HttpGet (segments_url (py ''BBCA''))])"
  by (simp add: run_eval frame_eval string_eval)

text \<open>
  C6, as the code has it: when the service answers with a status outside 400..599 and a
  JSON object without the key \<open>revenue_breakdown\<close>, \<open>fetch_data\<close> returns that object
  unchanged; \<open>segments_summary\<close> then raises while it builds the dataset, a \<open>ValueError\<close>
  or the \<open>KeyError\<close> of the key; the exception leaves \<open>main\<close>, after the header and the
  request and before any prompt is sent, so no chart is synthesized.
\<close>

theorem missing_key_raises_in_segments_summary:
  assumes "button_pressed w"
    and "http_get w (segments_url (ticker_input w)) None = Reply status (Object body)"
    and "\<not> (400 \<le> status \<and> status < 600)"
    and "map_of body (py ''revenue_breakdown'') = None"
  shows "fetch_data w (py ''company/get-segments/'' @ ticker_input w @ py ''/'') None tr
           = (Inr body, tr @ [HttpGet (segments_url (ticker_input w))])
       \<and> (\<exists>e. (e = ValueError \<or> e = KeyError (py ''revenue_breakdown''))
              \<and> main w [] = (Inl e, start @ [Header (summary_header (ticker_input w)),
                                              HttpGet (segments_url (ticker_input w))]))"
proof -
  from segments_frame_missing_key[OF assms(4)]
  obtain e where e: "e = ValueError \<or> e = KeyError (py ''revenue_breakdown'')"
    and f: "segments_frame body = Inl e" by blast
  have "segments_summary w (ticker_input w) start
          = (Inl e, start @ [Header (summary_header (ticker_input w)),
                             HttpGet (segments_url (ticker_input w))])"
    by (rule summary_frame_fails[OF assms(2,3) f])
  then have "main w [] = (Inl e, start @ [Header (summary_header (ticker_input w)),
                                          HttpGet (segments_url (ticker_input w))])"
    using assms(1) by (simp add: main_pressed start_def sections_summary_fails)
  with e fetch_data_returns_body[OF assms(2,3)] show ?thesis by blast
qed

theorem missing_key_raises_in_segments_summary_witness:
  "button_pressed (demo_world no_breakdown_body (replies (fence code_fig)))
   \<and> map_of no_breakdown_body (py ''revenue_breakdown'') = None
   \<and> (\<exists>e. main (demo_world no_breakdown_body (replies (fence code_fig))) []
            = (Inl e, start @ [Header (summary_header (py ''BBCA'')), HttpGet (segments_url (py ''BBCA''))]))"
proof -
  let ?w = "demo_world no_breakdown_body (replies (fence code_fig))"
  have 1: "button_pressed ?w" by (simp add: demo_world_def)
  have 2: "http_get ?w (segments_url (ticker_input ?w)) None = Reply 200 (Object no_breakdown_body)"
    by (simp add: demo_world_def)
  have 3: "\<not> (400 \<le> (200::nat) \<and> (200::nat) < 600)" by simp
  have 4: "map_of no_breakdown_body (py ''revenue_breakdown'') = None"
    by (simp add: no_breakdown_body_def py_inj)
  have t: "ticker_input ?w = py ''BBCA''" by (simp add: demo_world_def)
  from missing_key_raises_in_segments_summary[OF 1 2 3 4, of "[]"] 1 4 show ?thesis
    unfolding t by blast
qed

subsection \<open>Generated code that raises\<close>

text \<open>
  C2. Claimed: a fault of the generated code is caught and reported as an execution error.
  In the example the generated code is \<open>fig = ticker\<close>; its \<open>NameError\<close> is the outcome of
  \<open>main\<close>, the chart section is opened and left empty, and the two sections after it are
  never reached.
\<close>

theorem exec_fault_is_not_caught:
  "fst (main (demo_world bbca_body (replies (fence code_ambient))) []) = Inl (NameError (py ''ticker''))
   \<and> shown (snd (main (demo_world bbca_body (replies (fence code_ambient))) []))
       = [TextInput ticker_label, Button button_label, Header (summary_header (py ''BBCA'')),
          Expander summary_title, Markdown (py ''ok''), Expander visualize_title]"
  by (simp add: run_eval frame_eval exec_eval string_eval)

text \<open>
  C2, as the code has it: whatever exception the execution of the sanitized code raises,
  \<open>visualize_segments\<close> ends with that same exception, after the prompt, the opening of the
  chart section and the call of \<open>exec\<close>; and when the summary section before it succeeded,
  \<open>main\<close> ends with it too.
\<close>

theorem exec_fault_propagates:
  assumes "llm_invoke w (prompts_sent tr) (visualize_prompt (to_string w d) t) = Inr reply"
    and "exec_builtin w (caller_globals w) (caller_locals w) (clean_python_code reply)
           (Some Map.empty) (Some Map.empty) = Inl e"
  shows "visualize_segments w t d tr
           = (Inl e, tr @ [LlmInvoke (visualize_prompt (to_string w d) t), Expander visualize_title,
                           Exec (clean_python_code reply)])
       \<and> (button_pressed w \<and> t = ticker_input w \<and> segments_summary w t start = (Inr d, tr)
            \<longrightarrow> main w [] = (Inl e, tr @ [LlmInvoke (visualize_prompt (to_string w d) t),
                                            Expander visualize_title, Exec (clean_python_code reply)]))"
  using visualize_exec_fault[OF assms]
  by (auto simp: main_pressed start_def sections_visualize_fails)

theorem exec_fault_propagates_witness:
  "button_pressed (demo_world bbca_body (replies (fence code_ambient)))
   \<and> fst (main (demo_world bbca_body (replies (fence code_ambient))) []) = Inl (NameError (py ''ticker''))"
proof -
  let ?w = "demo_world bbca_body (replies (fence code_ambient))"
  let ?t = "py ''BBCA''"
  let ?d = "projr (segments_frame bbca_body)"
  let ?tr = "start @ [Header (summary_header ?t), HttpGet (segments_url ?t),
                      LlmInvoke (replace (py ''{data}'') (py ''(table)'') summary_prompt),
                      Expander summary_title, Markdown (py ''ok'')]"
  have b: "button_pressed ?w" and t: "?t = ticker_input ?w" by (simp_all add: demo_world_def)
  have s: "segments_summary ?w ?t start = (Inr ?d, ?tr)"
    by (simp add: run_eval frame_eval string_eval)
  have 1: "llm_invoke ?w (prompts_sent ?tr) (visualize_prompt (to_string ?w ?d) ?t) = Inr (fence code_ambient)"
    by (simp add: run_eval)
  have 2: "exec_builtin ?w (caller_globals ?w) (caller_locals ?w) (clean_python_code (fence code_ambient))
             (Some Map.empty) (Some Map.empty) = Inl (NameError (py ''ticker''))"
    by (simp add: demo_world_def exec_eval string_eval)
  from exec_fault_propagates[OF 1 2] b t s
  have "main ?w [] = (Inl (NameError (py ''ticker'')),
          ?tr @ [LlmInvoke (visualize_prompt (to_string ?w ?d) ?t), Expander visualize_title,
                 Exec (clean_python_code (fence code_ambient))])"
    by blast
  with b show ?thesis by simp
qed

subsection \<open>Generated code that does not bind \<open>fig\<close>\<close>

text \<open>
  C3. Claimed: code that runs but never binds \<open>fig\<close> gives a missing-artifact error, an
  error indicator in the chart section, and the other sections still render. In the
  example the code is \<open>x = 1\<close>: \<open>main\<close> ends with \<open>KeyError\<close> for the key \<open>fig\<close>, after two
  prompts; the interpretation and the risk section are not rendered.
\<close>

theorem missing_fig_is_a_key_error:
  "fst (main (demo_world bbca_body (replies (fence code_no_fig))) []) = Inl (KeyError (py ''fig''))
   \<and> shown (snd (main (demo_world bbca_body (replies (fence code_no_fig))) []))
       = [TextInput ticker_label, Button button_label, Header (summary_header (py ''BBCA'')),
          Expander summary_title, Markdown (py ''ok''), Expander visualize_title]
   \<and> prompts_sent (snd (main (demo_world bbca_body (replies (fence code_no_fig))) [])) = 2"
  by (simp add: run_eval frame_eval exec_eval string_eval)

text \<open>
  C3, as the code has it: when the execution of the sanitized code returns and the locals
  dictionary has no key \<open>fig\<close>, \<open>visualize_segments\<close> ends with \<open>KeyError\<close> for \<open>fig\<close>, with
  nothing drawn; and when the summary section before it succeeded, \<open>main\<close> ends with that
  \<open>KeyError\<close> too.
\<close>

theorem missing_fig_propagates:
  assumes "llm_invoke w (prompts_sent tr) (visualize_prompt (to_string w d) t) = Inr reply"
    and "exec_builtin w (caller_globals w) (caller_locals w) (clean_python_code reply)
           (Some Map.empty) (Some Map.empty) = Inr exec_locals"
    and "exec_locals (py ''fig'') = None"
  shows "visualize_segments w t d tr
           = (Inl (KeyError (py ''fig'')),
              tr @ [LlmInvoke (visualize_prompt (to_string w d) t), Expander visualize_title,
                    Exec (clean_python_code reply)])
       \<and> (button_pressed w \<and> t = ticker_input w \<and> segments_summary w t start = (Inr d, tr)
            \<longrightarrow> main w [] = (Inl (KeyError (py ''fig'')),
                              tr @ [LlmInvoke (visualize_prompt (to_string w d) t),
                                    Expander visualize_title, Exec (clean_python_code reply)]))"
  using visualize_missing_fig[OF assms]
  by (auto simp: main_pressed start_def sections_visualize_fails)

theorem missing_fig_propagates_witness:
  "button_pressed (demo_world bbca_body (replies (fence code_no_fig)))
   \<and> fst (main (demo_world bbca_body (replies (fence code_no_fig))) []) = Inl (KeyError (py ''fig''))"
proof -
  let ?w = "demo_world bbca_body (replies (fence code_no_fig))"
  let ?t = "py ''BBCA''"
  let ?d = "projr (segments_frame bbca_body)"
  let ?tr = "start @ [Header (summary_header ?t), HttpGet (segments_url ?t),
                      LlmInvoke (replace (py ''{data}'') (py ''(table)'') summary_prompt),
                      Expander summary_title, Markdown (py ''ok'')]"
  have b: "button_pressed ?w" and t: "?t = ticker_input ?w" by (simp_all add: demo_world_def)
  have s: "segments_summary ?w ?t start = (Inr ?d, ?tr)"
    by (simp add: run_eval frame_eval string_eval)
  have 1: "llm_invoke ?w (prompts_sent ?tr) (visualize_prompt (to_string ?w ?d) ?t) = Inr (fence code_no_fig)"
    by (simp add: run_eval)
  have 2: "exec_builtin ?w (caller_globals ?w) (caller_locals ?w) (clean_python_code (fence code_no_fig))
             (Some Map.empty) (Some Map.empty) = Inr [py ''x'' \<mapsto> VInt 1]"
    by (simp add: demo_world_def exec_eval string_eval)
  have 3: "[py ''x'' \<mapsto> VInt 1] (py ''fig'') = None" by (simp add: py_inj)
  from missing_fig_propagates[OF 1 2 3] b t s
  have "main ?w [] = (Inl (KeyError (py ''fig'')),
          ?tr @ [LlmInvoke (visualize_prompt (to_string ?w ?d) ?t), Expander visualize_title,
                 Exec (clean_python_code (fence code_no_fig))])"
    by blast
  with b show ?thesis by simp
qed

subsection \<open>Any section that fails\<close>

text \<open>
  C7. Claimed: a failing section shows an error message and its siblings still attempt to
  render. In the example the third call of the model (for the interpretation) fails: the
  exception is the outcome of \<open>main\<close>, the summary and the chart stay on the page, nothing
  is shown for the interpretation, and the risk prompt is never sent.
\<close>

theorem failed_section_ends_the_run:
  "fst (main (demo_world bbca_body (replies_failing 2 (fence code_fig))) [])
     = Inl (Raised (py ''APIConnectionError''))
   \<and> shown (snd (main (demo_world bbca_body (replies_failing 2 (fence code_fig))) []))
       = [TextInput ticker_label, Button button_label, Header (summary_header (py ''BBCA'')),
          Expander summary_title, Markdown (py ''ok''), Expander visualize_title, Pyplot (VObj 1)]
   \<and> prompts_sent (snd (main (demo_world bbca_body (replies_failing 2 (fence code_fig))) [])) = 3"
  by (simp add: run_eval frame_eval exec_eval string_eval)

text \<open>
  C7, as the code has it: when the button is pressed, the exception of the first section
  that fails (summary, chart, interpretation, risk, in this order) is the outcome of
  \<open>main\<close>; the events of the run end where that section raised, so no later section is
  attempted, and the failing section adds no text and no chart to the page.
\<close>

theorem section_failure_propagates:
  assumes "button_pressed w"
  shows "(segments_summary w (ticker_input w) start = (Inl e, tr1)
            \<longrightarrow> main w [] = (Inl e, tr1) \<and> content tr1 = [])
       \<and> (segments_summary w (ticker_input w) start = (Inr d, tr1)
          \<and> visualize_segments w (ticker_input w) d tr1 = (Inl e, tr2)
            \<longrightarrow> main w [] = (Inl e, tr2) \<and> content tr2 = content tr1)
       \<and> (segments_summary w (ticker_input w) start = (Inr d, tr1)
          \<and> visualize_segments w (ticker_input w) d tr1 = (Inr u, tr2)
          \<and> interpret_segments w d tr2 = (Inl e, tr3)
            \<longrightarrow> main w [] = (Inl e, tr3) \<and> content tr3 = content tr2)
       \<and> (segments_summary w (ticker_input w) start = (Inr d, tr1)
          \<and> visualize_segments w (ticker_input w) d tr1 = (Inr u, tr2)
          \<and> interpret_segments w d tr2 = (Inr u', tr3)
          \<and> risk_analysis w d tr3 = (Inl e, tr4)
            \<longrightarrow> main w [] = (Inl e, tr4) \<and> content tr4 = content tr3)"
proof -
  have m: "main w [] = sections w (ticker_input w) start"
    using assms by (simp add: main_pressed start_def)
  have c0: "content start = []" by (simp add: start_def content_simps)
  show ?thesis
  proof (intro conjI impI)
    assume a: "segments_summary w (ticker_input w) start = (Inl e, tr1)"
    then show "main w [] = (Inl e, tr1)" by (simp add: m sections_summary_fails)
    from summary_fails_content[OF a] c0 show "content tr1 = []" by simp
  next
    assume a: "segments_summary w (ticker_input w) start = (Inr d, tr1)
               \<and> visualize_segments w (ticker_input w) d tr1 = (Inl e, tr2)"
    then show "main w [] = (Inl e, tr2)" by (simp add: m sections_visualize_fails)
    from a visualize_fails_content show "content tr2 = content tr1" by blast
  next
    assume a: "segments_summary w (ticker_input w) start = (Inr d, tr1)
               \<and> visualize_segments w (ticker_input w) d tr1 = (Inr u, tr2)
               \<and> interpret_segments w d tr2 = (Inl e, tr3)"
    then show "main w [] = (Inl e, tr3)" by (simp add: m sections_interpret_fails)
    from a interpret_fails_content show "content tr3 = content tr2" by blast
  next
    assume a: "segments_summary w (ticker_input w) start = (Inr d, tr1)
               \<and> visualize_segments w (ticker_input w) d tr1 = (Inr u, tr2)
               \<and> interpret_segments w d tr2 = (Inr u', tr3)
               \<and> risk_analysis w d tr3 = (Inl e, tr4)"
    then show "main w [] = (Inl e, tr4)" by (simp add: m sections_risk)
    from a risk_fails_content show "content tr4 = content tr3" by blast
  qed
qed

theorem section_failure_propagates_witness:
  "button_pressed (demo_world bbca_body (replies_failing 2 (fence code_fig)))
   \<and> fst (main (demo_world bbca_body (replies_failing 2 (fence code_fig))) [])
       = Inl (Raised (py ''APIConnectionError''))
   \<and> content (snd (main (demo_world bbca_body (replies_failing 2 (fence code_fig))) []))
       = [Markdown (py ''ok''), Pyplot (VObj 1)]"
proof -
  let ?w = "demo_world bbca_body (replies_failing 2 (fence code_fig))"
  let ?t = "py ''BBCA''"
  let ?d = "projr (segments_frame bbca_body)"
  let ?tr1 = "start @ [Header (summary_header ?t), HttpGet (segments_url ?t),
                       LlmInvoke (replace (py ''{data}'') (py ''(table)'') summary_prompt),
                       Expander summary_title, Markdown (py ''ok'')]"
  let ?tr2 = "?tr1 @ [LlmInvoke (visualize_prompt (py ''(table)'') ?t), Expander visualize_title,
                      Exec code_fig, Pyplot (VObj 1)]"
  let ?tr3 = "?tr2 @ [LlmInvoke (replace (py ''{data}'') (py ''(table)'') interpret_prompt)]"
  have b: "button_pressed ?w" and t: "ticker_input ?w = ?t" by (simp_all add: demo_world_def)
  have s1: "segments_summary ?w ?t start = (Inr ?d, ?tr1)"
    by (simp add: run_eval frame_eval string_eval)
  have s2: "visualize_segments ?w ?t ?d ?tr1 = (Inr (), ?tr2)"
    by (simp add: run_eval exec_eval string_eval)
  have s3: "interpret_segments ?w ?d ?tr2 = (Inl (Raised (py ''APIConnectionError'')), ?tr3)"
    by (simp add: run_eval)
  from section_failure_propagates[OF b, where e = "Raised (py ''APIConnectionError'')" and d = ?d
           and ?tr1.0 = ?tr1 and ?tr2.0 = ?tr2 and u = "()" and ?tr3.0 = ?tr3]
       s1 s2 s3
  have "main ?w [] = (Inl (Raised (py ''APIConnectionError'')), ?tr3) \<and> content ?tr3 = content ?tr2"
    unfolding t by blast
  then show ?thesis using b by (simp add: content_def start_def)
qed

section \<open>Properties of the execution step\<close>









subsection \<open>The caller's variables\<close>


text \<open>In the same way the code reaches the globals of the application, the key of the
  inference service among them, through the module \<open>__main__\<close>.\<close>

lemma generated_code_reads_module_global:
  "content (snd (main (demo_world bbca_body (replies (fence code_main))) []))
     = [Markdown (py ''ok''), Pyplot (VStr (py ''gsk'')), Markdown (py ''ok''), Markdown (py ''ok'')]"
  by (simp add: run_eval frame_eval exec_eval string_eval)



text \<open>For comparison: called without the two dictionaries, \<open>exec\<close> would run the same code
  with the variables of the caller, and the bare name would read the ticker.\<close>

lemma exec_without_dictionaries_sees_caller:
  "python_exec demo_python Map.empty [py ''ticker'' \<mapsto> VStr (py ''BBCA'')] code_ambient None None
     = Inr [py ''ticker'' \<mapsto> VStr (py ''BBCA''), py ''fig'' \<mapsto> VStr (py ''BBCA'')]"
  by (simp add: exec_eval py_def)

subsection \<open>Functions defined by the generated code\<close>





text \<open>For comparison: with one dictionary for both, as in \<open>exec(code, {})\<close>, the import is a
  global and the same code runs to its end.\<close>

lemma exec_with_one_dictionary_sees_import:
  "python_exec demo_python Map.empty Map.empty code_import (Some Map.empty) None
     = Inr [py ''math'' \<mapsto> VModule (py ''math''),
            py ''f'' \<mapsto> VFunc (py ''f'') [] [FReturn (Attr (Name (py ''math'')) (py ''pi''))],
            py ''fig'' \<mapsto> VObj 0]"
  by (simp add: exec_eval py_def)

end
